theory Spec2Isabelle
  imports Main "HOL-Library.AList"
begin

section \<open>Python exceptions and effectful programs\<close>

text \<open>
  The exception classes the two modules raise, catch or let through, with Python's
  subclass relation. \<open>LocationValueError\<close> is urllib3's class deriving from both
  \<open>ValueError\<close> and \<open>HTTPError\<close>; \<open>MaxRetryError\<close> is one of urllib3's many
  \<open>HTTPError\<close> subclasses; \<open>KeyboardInterrupt\<close> derives from \<open>BaseException\<close>
  only, so \<open>except Exception\<close> does not catch it.
\<close>

datatype exc_class =
    BaseException | Exception | KeyboardInterrupt
  | AssertionError | AttributeError | KeyError | TypeError | ValueError
  | RuntimeError | TimeoutError
  | ProvisioningError | PipelineConfigurationError
  | HTTPError | MaxRetryError | LocationValueError | ApiException

fun mro :: "exc_class \<Rightarrow> exc_class list" where
  "mro BaseException = [BaseException]"
| "mro KeyboardInterrupt = [KeyboardInterrupt, BaseException]"
| "mro MaxRetryError = [MaxRetryError, HTTPError, Exception, BaseException]"
| "mro LocationValueError = [LocationValueError, ValueError, HTTPError, Exception, BaseException]"
| "mro Exception = [Exception, BaseException]"
| "mro c = [c, Exception, BaseException]"

datatype exn = Exc (exc_class_of: exc_class) (exc_message: string)

definition isinstance :: "exn \<Rightarrow> exc_class \<Rightarrow> bool" where
  "isinstance e c = (c \<in> set (mro (exc_class_of e)))"

text \<open>
  A program runs on a state \<open>(w, t)\<close>: the outside world \<open>w\<close> (cluster, daemon, files,
  ports; its type is left open) and the trace \<open>t\<close> of the effectful calls and log
  records made so far. It returns \<open>Inl e\<close> when the Python raises \<open>e\<close> and \<open>Inr x\<close>
  when it returns \<open>x\<close>. A failing external call may still have changed the world.
\<close>

type_synonym ('w, 'e, 'a) prog = "'w \<times> 'e list \<Rightarrow> (exn + 'a) \<times> 'w \<times> 'e list"

definition ret :: "'a \<Rightarrow> ('w, 'e, 'a) prog" where
  "ret x = (\<lambda>s. (Inr x, s))"

definition raise :: "exn \<Rightarrow> ('w, 'e, 'a) prog" where
  "raise e = (\<lambda>s. (Inl e, s))"

definition bnd :: "('w, 'e, 'a) prog \<Rightarrow> ('a \<Rightarrow> ('w, 'e, 'b) prog) \<Rightarrow> ('w, 'e, 'b) prog" where
  "bnd m f = (\<lambda>s. case m s of (Inl e, s') \<Rightarrow> (Inl e, s') | (Inr x, s') \<Rightarrow> f x s')"

definition emit :: "'e \<Rightarrow> ('w, 'e, unit) prog" where
  "emit ev = (\<lambda>(w, t). (Inr (), (w, t @ [ev])))"

definition probe :: "('w \<Rightarrow> 'a) \<Rightarrow> ('w, 'e, 'a) prog" where
  \<comment> \<open>reading an attribute of an object in memory: no trace entry, no change\<close>
  "probe p = (\<lambda>(w, t). (Inr (p w), (w, t)))"

definition check :: "'e \<Rightarrow> ('w \<Rightarrow> 'a) \<Rightarrow> ('w, 'e, 'a) prog" where
  \<comment> \<open>a call that only reads the world: recorded in the trace, the world unchanged\<close>
  "check ev p = (\<lambda>(w, t). (Inr (p w), (w, t @ [ev])))"

definition call :: "'e \<Rightarrow> ('w \<Rightarrow> (exn + 'a) \<times> 'w) \<Rightarrow> ('w, 'e, 'a) prog" where
  \<comment> \<open>an external call: recorded in the trace when made, whether or not it then raises\<close>
  "call ev act = (\<lambda>(w, t). case act w of (r, w') \<Rightarrow> (r, (w', t @ [ev])))"

definition try_except ::
  "('w, 'e, 'a) prog \<Rightarrow> (exn \<Rightarrow> bool) \<Rightarrow> (exn \<Rightarrow> ('w, 'e, 'a) prog) \<Rightarrow> ('w, 'e, 'a) prog" where
  \<comment> \<open>\<open>try: m except <classes> as e: handler e\<close>\<close>
  "try_except m catches handler =
     (\<lambda>s. case m s of
             (Inl e, s') \<Rightarrow> if catches e then handler e s' else (Inl e, s')
           | (Inr x, s') \<Rightarrow> (Inr x, s'))"

definition if_then :: "bool \<Rightarrow> ('w, 'e, unit) prog \<Rightarrow> ('w, 'e, unit) prog" where
  \<comment> \<open>an \<open>if\<close> statement without \<open>else\<close>\<close>
  "if_then b m = (if b then m else ret ())"

section \<open>The Kubeflow orchestrator (kubeflow\_orchestrator.py)\<close>

subsection \<open>Configuration and names\<close>

definition DEFAULT_KFP_UI_PORT :: int where
  "DEFAULT_KFP_UI_PORT = 8080"

text \<open>\<open>orch_uuid\<close> is \<open>str(self.uuid)\<close>, the textual form the code slices and joins.\<close>

record KubeflowOrchestrator =
  orch_uuid :: string
  custom_docker_base_image_name :: "string option"
  kubeflow_pipelines_ui_port :: int
  kubernetes_context :: "string option"
  synchronous :: bool

definition get_k3d_cluster_name :: "string \<Rightarrow> string" where
  "get_k3d_cluster_name uuid = ''zenml-kubeflow-'' @ take 8 uuid"

definition get_k3d_kubernetes_context :: "string \<Rightarrow> string" where
  "get_k3d_kubernetes_context uuid = ''k3d-'' @ get_k3d_cluster_name uuid"

definition truthy_str :: "string option \<Rightarrow> bool" where
  \<comment> \<open>Python truth of an \<open>Optional[str]\<close>: \<open>None\<close> and the empty string are false\<close>
  "truthy_str s = (case s of None \<Rightarrow> False | Some x \<Rightarrow> x \<noteq> [])"

definition set_default_kubernetes_context :: "KubeflowOrchestrator \<Rightarrow> KubeflowOrchestrator" where
  "set_default_kubernetes_context values =
     (if truthy_str (kubernetes_context values) then values
      else values\<lparr>kubernetes_context := Some (get_k3d_kubernetes_context (orch_uuid values))\<rparr>)"

definition is_local :: "KubeflowOrchestrator \<Rightarrow> bool" where
  "is_local self = (kubernetes_context self = Some (get_k3d_kubernetes_context (orch_uuid self)))"

definition k3d_cluster_name :: "KubeflowOrchestrator \<Rightarrow> string" where
  "k3d_cluster_name self = get_k3d_cluster_name (orch_uuid self)"

definition str_digit :: "nat \<Rightarrow> char" where
  "str_digit d = char_of (48 + d)"

fun str_nat :: "nat \<Rightarrow> string" where
  "str_nat n = (if n < 10 then [str_digit n] else str_nat (n div 10) @ [str_digit (n mod 10)])"

definition str_int :: "int \<Rightarrow> string" where
  \<comment> \<open>Python's \<open>str\<close> of an \<open>int\<close>\<close>
  "str_int i = (if i < 0 then CHR ''-'' # str_nat (nat (- i)) else str_nat (nat i))"

definition get_k3d_registry_name :: "int \<Rightarrow> string" where
  "get_k3d_registry_name port = ''k3d-zenml-kubeflow-registry.localhost:'' @ str_int port"

subsection \<open>The stack validator's custom rule\<close>

text \<open>
  What the rule reads of a stack: the values of \<open>stack.components\<close> in the dictionary's
  order, each with its name, the value of its type and its \<open>local_path\<close>, and the
  container registry with its name, URI and \<open>is_local\<close> property.
\<close>

record stack_component =
  comp_name :: string
  comp_type_value :: string
  local_path :: "string option"

record container_registry =
  reg_name :: string
  reg_uri :: string
  reg_is_local :: bool

record stack =
  components :: "stack_component list"
  stack_container_registry :: "container_registry option"

definition local_component_reason :: "stack_component \<Rightarrow> string" where
  "local_component_reason stack_comp =
     ''The Kubeflow orchestrator is not running in a local k3d cluster. The '' @ [CHR 0x27]
     @ comp_name stack_comp @ [CHR 0x27] @ '' '' @ comp_type_value stack_comp
     @ '' is a local stack component and will not be available in the Kubeflow pipeline step. ''
     @ ''Please ensure that you always use non-local stack components with a remote Kubeflow ''
     @ ''orchestrator, otherwise you may run into pipeline execution problems.''"

definition local_registry_reason :: "container_registry \<Rightarrow> string" where
  "local_registry_reason reg =
     ''The Kubeflow orchestrator is not running in a local k3d cluster but the ''
     @ reg_name reg @ '' container registry URI '' @ [CHR 0x27] @ reg_uri reg @ [CHR 0x27]
     @ '' points to a local container registry. Please ensure that you always use non-local ''
     @ ''stack components with a remote Kubeflow orchestrator, otherwise you will run into ''
     @ ''problems.''"

definition remote_registry_reason :: "container_registry \<Rightarrow> string" where
  "remote_registry_reason reg =
     ''The container registry URI '' @ [CHR 0x27] @ reg_uri reg @ [CHR 0x27]
     @ '' doesn'' @ [CHR 0x27] @ ''t match the expected format '' @ [CHR 0x27]
     @ ''localhost:$PORT'' @ [CHR 0x27] @ ''. The local Kubeflow orchestrator only works with a ''
     @ ''local container registry because it cannot authenticate to external container ''
     @ ''registries.''"

text \<open>
  The \<open>for\<close> loop over the components: it skips a component whose \<open>local_path\<close> is
  false and returns at the first one whose \<open>local_path\<close> is true.
\<close>

fun first_local_component :: "stack_component list \<Rightarrow> stack_component option" where
  "first_local_component [] = None"
| "first_local_component (stack_comp # rest) =
     (if \<not> truthy_str (local_path stack_comp) then first_local_component rest
      else Some stack_comp)"

definition validate_local_requirements ::
  "KubeflowOrchestrator \<Rightarrow> stack \<Rightarrow> exn + (bool \<times> string)" where
  "validate_local_requirements self stk =
     (case stack_container_registry stk of
        None \<Rightarrow> Inl (Exc AssertionError [])
      | Some reg \<Rightarrow>
          if \<not> is_local self then
            (case first_local_component (components stk) of
               Some stack_comp \<Rightarrow> Inr (False, local_component_reason stack_comp)
             | None \<Rightarrow>
                 if reg_is_local reg then Inr (False, local_registry_reason reg)
                 else Inr (True, []))
          else
            if \<not> reg_is_local reg then Inr (False, remote_registry_reason reg)
            else Inr (True, []))"

subsection \<open>Collaborators outside the module\<close>

text \<open>
  The module \<open>local_deployment_utils\<close>, the file and network utilities, the daemon
  check, the active stack of the repository and Python's \<open>int\<close> are not part of the
  orchestrator's source. They are parameters: a check reads the world, an action takes
  the world and returns a result or an exception together with the world it leaves.
  Every property below holds for all of them.
\<close>

record artifact_store =
  store_is_LocalArtifactStore :: bool
  store_path :: string

record 'w local_deployment_utils =
  K3S_IMAGE_NAME :: string
  KFP_VERSION :: string
  check_prerequisites :: "'w \<Rightarrow> bool"
  k3d_cluster_exists :: "string \<Rightarrow> 'w \<Rightarrow> bool"
  k3d_cluster_running :: "string \<Rightarrow> 'w \<Rightarrow> bool"
  write_local_registry_yaml :: "string \<Rightarrow> string \<Rightarrow> string \<Rightarrow> 'w \<Rightarrow> (exn + unit) \<times> 'w"
  create_k3d_cluster :: "string \<Rightarrow> string \<Rightarrow> string \<Rightarrow> 'w \<Rightarrow> (exn + unit) \<times> 'w"
  deploy_kubeflow_pipelines :: "string \<Rightarrow> 'w \<Rightarrow> (exn + unit) \<times> 'w"
  add_hostpath_to_kubeflow_pipelines :: "string \<Rightarrow> string \<Rightarrow> 'w \<Rightarrow> (exn + unit) \<times> 'w"
  delete_k3d_cluster :: "string \<Rightarrow> 'w \<Rightarrow> (exn + unit) \<times> 'w"
  start_k3d_cluster :: "string \<Rightarrow> 'w \<Rightarrow> (exn + unit) \<times> 'w"
  stop_k3d_cluster :: "string \<Rightarrow> 'w \<Rightarrow> (exn + unit) \<times> 'w"
  wait_until_kubeflow_pipelines_ready :: "string \<Rightarrow> 'w \<Rightarrow> (exn + unit) \<times> 'w"
  start_kfp_ui_daemon :: "string \<Rightarrow> string \<Rightarrow> int \<Rightarrow> string \<Rightarrow> 'w \<Rightarrow> (exn + unit) \<times> 'w"
  stop_kfp_ui_daemon :: "string \<Rightarrow> 'w \<Rightarrow> (exn + unit) \<times> 'w"

record 'w host =
  sys_platform :: string
  get_global_config_directory :: string
  os_path_join :: "string list \<Rightarrow> string"
  check_if_daemon_is_running :: "string \<Rightarrow> 'w \<Rightarrow> bool"
  active_container_registry :: "'w \<Rightarrow> container_registry option"
  active_artifact_store :: "'w \<Rightarrow> artifact_store"
  fileio_makedirs :: "string \<Rightarrow> 'w \<Rightarrow> (exn + unit) \<times> 'w"
  fileio_exists :: "string \<Rightarrow> 'w \<Rightarrow> bool"
  fileio_remove :: "string \<Rightarrow> 'w \<Rightarrow> (exn + unit) \<times> 'w"
  port_available :: "int \<Rightarrow> 'w \<Rightarrow> bool"
  find_available_port :: "'w \<Rightarrow> int"
  py_int :: "string \<Rightarrow> int option"

record recurring_run_args =
  experiment_id :: string
  job_name :: "string option"
  pipeline_package_path :: string
  enable_caching :: bool
  start_time :: "string option"
  end_time :: "string option"
  interval_second :: int
  no_catchup :: bool

record 'w kfp_client =
  kfp_Client :: "string option \<Rightarrow> 'w \<Rightarrow> (exn + unit) \<times> 'w"
  get_experiment :: "string \<Rightarrow> 'w \<Rightarrow> (exn + string) \<times> 'w"
  create_experiment :: "string \<Rightarrow> 'w \<Rightarrow> (exn + string) \<times> 'w"
  create_recurring_run :: "recurring_run_args \<Rightarrow> 'w \<Rightarrow> (exn + string) \<times> 'w"
  create_run_from_pipeline_package ::
    "string \<Rightarrow> string option \<Rightarrow> bool \<Rightarrow> 'w \<Rightarrow> (exn + string) \<times> 'w"
  wait_for_run_completion :: "string \<Rightarrow> int \<Rightarrow> 'w \<Rightarrow> (exn + unit) \<times> 'w"

text \<open>
  The trace: one entry per log record and per call into a collaborator, with its
  arguments, whether the call acts on the world or only reads it. Reading the active
  stack of the repository is not recorded.
\<close>

datatype log_level = DEBUG | INFO | WARNING | ERROR

datatype event =
    Log log_level string
  | CheckPrerequisites
  | K3dClusterExists string
  | K3dClusterRunning string
  | CheckIfDaemonIsRunning string
  | FileExists string
  | PortAvailable int
  | FindAvailablePort
  | MakeDirs string
  | WriteLocalRegistryYaml string string string
  | CreateK3dCluster string string string
  | DeployKubeflowPipelines string
  | AddHostpathToKubeflowPipelines string string
  | DeleteK3dCluster string
  | StartK3dCluster string
  | StopK3dCluster string
  | WaitUntilKubeflowPipelinesReady string
  | StartKfpUiDaemon string string int string
  | StopKfpUiDaemon string
  | RemoveFile string
  | KfpClient "string option"
  | GetExperiment string
  | CreateExperiment string
  | CreateRecurringRun recurring_run_args
  | CreateRunFromPipelinePackage string "string option" bool
  | WaitForRunCompletion string int

definition logger :: "log_level \<Rightarrow> string \<Rightarrow> ('w, event, unit) prog" where
  "logger lvl msg = emit (Log lvl msg)"

subsection \<open>Paths and the daemon port\<close>

definition root_directory :: "'w host \<Rightarrow> KubeflowOrchestrator \<Rightarrow> string" where
  "root_directory hs self =
     os_path_join hs [get_global_config_directory hs, ''kubeflow'', orch_uuid self]"

definition pipeline_directory :: "'w host \<Rightarrow> KubeflowOrchestrator \<Rightarrow> string" where
  "pipeline_directory hs self = os_path_join hs [root_directory hs self, ''pipelines'']"

definition pid_file_path :: "'w host \<Rightarrow> KubeflowOrchestrator \<Rightarrow> string" where
  "pid_file_path hs self = os_path_join hs [root_directory hs self, ''kubeflow_daemon.pid'']"

definition log_file :: "'w host \<Rightarrow> KubeflowOrchestrator \<Rightarrow> string" where
  "log_file hs self = os_path_join hs [root_directory hs self, ''kubeflow_daemon.log'']"

definition k3d_registry_config_path :: "'w host \<Rightarrow> KubeflowOrchestrator \<Rightarrow> string" where
  "k3d_registry_config_path hs self = os_path_join hs [root_directory hs self, ''k3d_registry.yaml'']"

definition get_kfp_ui_daemon_port :: "'w host \<Rightarrow> KubeflowOrchestrator \<Rightarrow> 'w \<Rightarrow> int" where
  "get_kfp_ui_daemon_port hs self w =
     (let port = kubeflow_pipelines_ui_port self in
      if port = DEFAULT_KFP_UI_PORT \<and> \<not> port_available hs port w
      then find_available_port hs w
      else port)"

subsection \<open>Status properties\<close>

text \<open>
  Each status property is given twice: as the value it has in a world, and as the
  program that evaluates it, which records the calls it makes into the collaborators,
  in their order and with Python's short-circuit evaluation. The programs return the
  values (\<open>eval_is_running_run\<close> and the lemmas beside it).
\<close>

definition is_cluster_provisioned ::
  "'w local_deployment_utils \<Rightarrow> KubeflowOrchestrator \<Rightarrow> 'w \<Rightarrow> bool" where
  "is_cluster_provisioned du self w =
     (if \<not> is_local self then True else k3d_cluster_exists du (k3d_cluster_name self) w)"

definition is_cluster_running ::
  "'w local_deployment_utils \<Rightarrow> KubeflowOrchestrator \<Rightarrow> 'w \<Rightarrow> bool" where
  "is_cluster_running du self w =
     (if \<not> is_local self then True else k3d_cluster_running du (k3d_cluster_name self) w)"

definition is_daemon_running :: "'w host \<Rightarrow> KubeflowOrchestrator \<Rightarrow> 'w \<Rightarrow> bool" where
  "is_daemon_running hs self w =
     (if sys_platform hs \<noteq> ''win32'' then check_if_daemon_is_running hs (pid_file_path hs self) w
      else True)"

definition is_provisioned ::
  "'w local_deployment_utils \<Rightarrow> KubeflowOrchestrator \<Rightarrow> 'w \<Rightarrow> bool" where
  "is_provisioned du self w =
     (if \<not> check_prerequisites du w then False else is_cluster_provisioned du self w)"

definition is_running ::
  "'w local_deployment_utils \<Rightarrow> 'w host \<Rightarrow> KubeflowOrchestrator \<Rightarrow> 'w \<Rightarrow> bool" where
  "is_running du hs self w =
     (is_provisioned du self w \<and> is_cluster_running du self w \<and> is_daemon_running hs self w)"

definition is_suspended ::
  "'w local_deployment_utils \<Rightarrow> 'w host \<Rightarrow> KubeflowOrchestrator \<Rightarrow> 'w \<Rightarrow> bool" where
  "is_suspended du hs self w =
     (is_provisioned du self w \<and> \<not> is_cluster_running du self w \<and> \<not> is_daemon_running hs self w)"

definition eval_is_cluster_provisioned ::
  "'w local_deployment_utils \<Rightarrow> KubeflowOrchestrator \<Rightarrow> ('w, event, bool) prog" where
  "eval_is_cluster_provisioned du self =
     (if \<not> is_local self then ret True
      else check (K3dClusterExists (k3d_cluster_name self))
                 (k3d_cluster_exists du (k3d_cluster_name self)))"

definition eval_is_cluster_running ::
  "'w local_deployment_utils \<Rightarrow> KubeflowOrchestrator \<Rightarrow> ('w, event, bool) prog" where
  "eval_is_cluster_running du self =
     (if \<not> is_local self then ret True
      else check (K3dClusterRunning (k3d_cluster_name self))
                 (k3d_cluster_running du (k3d_cluster_name self)))"

definition eval_is_daemon_running ::
  "'w host \<Rightarrow> KubeflowOrchestrator \<Rightarrow> ('w, event, bool) prog" where
  "eval_is_daemon_running hs self =
     (if sys_platform hs \<noteq> ''win32''
      then check (CheckIfDaemonIsRunning (pid_file_path hs self))
                 (check_if_daemon_is_running hs (pid_file_path hs self))
      else ret True)"

definition eval_is_provisioned ::
  "'w local_deployment_utils \<Rightarrow> KubeflowOrchestrator \<Rightarrow> ('w, event, bool) prog" where
  "eval_is_provisioned du self =
     bnd (check CheckPrerequisites (check_prerequisites du)) (\<lambda>prerequisites.
     if \<not> prerequisites then ret False else eval_is_cluster_provisioned du self)"

definition eval_is_running ::
  "'w local_deployment_utils \<Rightarrow> 'w host \<Rightarrow> KubeflowOrchestrator \<Rightarrow> ('w, event, bool) prog" where
  "eval_is_running du hs self =
     bnd (eval_is_provisioned du self) (\<lambda>provisioned.
     if \<not> provisioned then ret False
     else
     bnd (eval_is_cluster_running du self) (\<lambda>cluster_running.
     if \<not> cluster_running then ret False
     else eval_is_daemon_running hs self))"

definition eval_is_suspended ::
  "'w local_deployment_utils \<Rightarrow> 'w host \<Rightarrow> KubeflowOrchestrator \<Rightarrow> ('w, event, bool) prog" where
  "eval_is_suspended du hs self =
     bnd (eval_is_provisioned du self) (\<lambda>provisioned.
     if \<not> provisioned then ret False
     else
     bnd (eval_is_cluster_running du self) (\<lambda>cluster_running.
     if cluster_running then ret False
     else
     bnd (eval_is_daemon_running hs self) (\<lambda>daemon_running.
     ret (\<not> daemon_running))))"

definition eval_get_kfp_ui_daemon_port ::
  "'w host \<Rightarrow> KubeflowOrchestrator \<Rightarrow> ('w, event, int) prog" where
  "eval_get_kfp_ui_daemon_port hs self =
     (let port = kubeflow_pipelines_ui_port self in
      if port = DEFAULT_KFP_UI_PORT then
        bnd (check (PortAvailable port) (port_available hs port)) (\<lambda>available.
        if \<not> available then check FindAvailablePort (find_available_port hs)
        else ret port)
      else ret port)"

definition trace_of :: "('w, 'e, 'a) prog \<Rightarrow> 'w \<Rightarrow> 'e list" where
  \<comment> \<open>the entries a program adds to the trace when started in the world \<open>w\<close>\<close>
  "trace_of m w = snd (snd (m (w, [])))"

subsection \<open>Lifecycle operations\<close>

fun str_join :: "string \<Rightarrow> string list \<Rightarrow> string" where
  "str_join sep [] = []"
| "str_join sep [x] = x"
| "str_join sep (x # y # ys) = x @ sep @ str_join sep (y # ys)"

definition manual_setup_commands ::
  "'w local_deployment_utils \<Rightarrow> 'w host \<Rightarrow> KubeflowOrchestrator \<Rightarrow> string \<Rightarrow> string \<Rightarrow> string list" where
  "manual_setup_commands du hs self container_registry_name container_registry_path =
     (let global_config_dir_path = get_global_config_directory hs in
      [''> k3d cluster create CLUSTER_NAME --image '' @ K3S_IMAGE_NAME du
         @ '' --registry-create '' @ container_registry_name
         @ '' --registry-config '' @ container_registry_path
         @ '' --volume '' @ global_config_dir_path @ '':'' @ global_config_dir_path @ [CHR 0x0A],
       ''> kubectl --context CLUSTER_NAME apply -k github.com/kubeflow/pipelines/manifests/kustomize/cluster-scoped-resources?ref=''
         @ KFP_VERSION du @ ''&timeout=1m'',
       ''> kubectl --context CLUSTER_NAME wait --timeout=60s --for condition=established crd/applications.app.k8s.io'',
       ''> kubectl --context CLUSTER_NAME apply -k github.com/kubeflow/pipelines/manifests/kustomize/env/platform-agnostic-pns?ref=''
         @ KFP_VERSION du @ ''&timeout=1m'',
       ''> kubectl --namespace kubeflow port-forward svc/ml-pipeline-ui ''
         @ str_int (kubeflow_pipelines_ui_port self) @ '':80''])"

definition list_manual_setup_steps ::
  "'w local_deployment_utils \<Rightarrow> 'w host \<Rightarrow> KubeflowOrchestrator \<Rightarrow> string \<Rightarrow> string
     \<Rightarrow> ('w, event, unit) prog" where
  "list_manual_setup_steps du hs self container_registry_name container_registry_path =
     bnd (logger ERROR ''Unable to spin up local Kubeflow Pipelines deployment.'') (\<lambda>_.
     bnd (logger INFO (''If you wish to spin up this Kubeflow local orchestrator manually, ''
            @ ''please enter the following commands (substituting where appropriate):''
            @ [CHR 0x0A])) (\<lambda>_.
     logger INFO (str_join [CHR 0x0A]
       (manual_setup_commands du hs self container_registry_name container_registry_path))))"

text \<open>The three log records of \<open>list_manual_setup_steps\<close>.\<close>

definition manual_setup_log ::
  "'w local_deployment_utils \<Rightarrow> 'w host \<Rightarrow> KubeflowOrchestrator \<Rightarrow> string \<Rightarrow> string \<Rightarrow> event list" where
  "manual_setup_log du hs self container_registry_name container_registry_path =
     [Log ERROR ''Unable to spin up local Kubeflow Pipelines deployment.'',
      Log INFO (''If you wish to spin up this Kubeflow local orchestrator manually, ''
        @ ''please enter the following commands (substituting where appropriate):''
        @ [CHR 0x0A]),
      Log INFO (str_join [CHR 0x0A]
        (manual_setup_commands du hs self container_registry_name container_registry_path))]"

definition deprovision ::
  "'w local_deployment_utils \<Rightarrow> 'w host \<Rightarrow> KubeflowOrchestrator \<Rightarrow> ('w, event, unit) prog" where
  "deprovision du hs self =
     bnd (eval_is_daemon_running hs self) (\<lambda>daemon_running.
     bnd (if_then daemon_running
            (call (StopKfpUiDaemon (pid_file_path hs self))
                  (stop_kfp_ui_daemon du (pid_file_path hs self)))) (\<lambda>_.
     bnd (if_then (is_local self)
            (bnd (call (DeleteK3dCluster (k3d_cluster_name self))
                       (delete_k3d_cluster du (k3d_cluster_name self))) (\<lambda>_.
             logger INFO ''Local kubeflow pipelines deployment deprovisioned.''))) (\<lambda>_.
     bnd (check (FileExists (log_file hs self)) (fileio_exists hs (log_file hs self)))
       (\<lambda>log_exists.
     if_then log_exists
       (call (RemoveFile (log_file hs self)) (fileio_remove hs (log_file hs self)))))))"

definition last_segment :: "string \<Rightarrow> string" where
  \<comment> \<open>\<open>uri.split(":")[-1]\<close>: the text after the last colon, all of it when there is none\<close>
  "last_segment uri = rev (takeWhile (\<lambda>c. c \<noteq> CHR '':'') (rev uri))"

definition int_of_text :: "'w host \<Rightarrow> string \<Rightarrow> ('w, event, int) prog" where
  \<comment> \<open>Python's \<open>int(text)\<close>; the message stands for Python's, which quotes the text\<close>
  "int_of_text hs text =
     (case py_int hs text of
        Some i \<Rightarrow> ret i
      | None \<Rightarrow> raise (Exc ValueError (''invalid literal for int() with base 10: '' @ text)))"

text \<open>The body of the \<open>try\<close> statement of \<open>provision\<close>.\<close>

definition local_provisioning_sequence ::
  "'w local_deployment_utils \<Rightarrow> 'w host \<Rightarrow> KubeflowOrchestrator \<Rightarrow> string \<Rightarrow> ('w, event, unit) prog" where
  "local_provisioning_sequence du hs self container_registry_name =
     bnd (call (CreateK3dCluster (k3d_cluster_name self) container_registry_name
                  (k3d_registry_config_path hs self))
               (create_k3d_cluster du (k3d_cluster_name self) container_registry_name
                  (k3d_registry_config_path hs self))) (\<lambda>_.
     case kubernetes_context self of
       None \<Rightarrow> raise (Exc AssertionError [])
     | Some ctx \<Rightarrow>
         bnd (call (DeployKubeflowPipelines ctx) (deploy_kubeflow_pipelines du ctx)) (\<lambda>_.
         bnd (probe (active_artifact_store hs)) (\<lambda>store.
         if_then (store_is_LocalArtifactStore store)
           (call (AddHostpathToKubeflowPipelines ctx (store_path store))
                 (add_hostpath_to_kubeflow_pipelines du ctx (store_path store))))))"

definition already_running_message :: string where
  "already_running_message =
     ''Found already existing local Kubeflow Pipelines deployment. ''
     @ ''If there are any issues with the existing deployment, please ''
     @ ''run '' @ [CHR 0x27] @ ''zenml stack down --force'' @ [CHR 0x27] @ '' to delete it.''"

definition provision ::
  "'w local_deployment_utils \<Rightarrow> 'w host \<Rightarrow> KubeflowOrchestrator \<Rightarrow> ('w, event, unit) prog" where
  "provision du hs self =
     bnd (eval_is_running du hs self) (\<lambda>running.
     if running then
       logger INFO already_running_message
     else
     bnd (check CheckPrerequisites (check_prerequisites du)) (\<lambda>prerequisites.
     if \<not> prerequisites then
       raise (Exc ProvisioningError (''Unable to provision local Kubeflow Pipelines deployment: ''
         @ ''Please install '' @ [CHR 0x27] @ ''k3d'' @ [CHR 0x27] @ '' and '' @ [CHR 0x27]
         @ ''kubectl'' @ [CHR 0x27] @ '' and try again.''))
     else
     bnd (probe (active_container_registry hs)) (\<lambda>registry.
     case registry of
       None \<Rightarrow> raise (Exc AssertionError [])
     | Some reg \<Rightarrow>
     bnd (call (MakeDirs (root_directory hs self)) (fileio_makedirs hs (root_directory hs self))) (\<lambda>_.
     if \<not> is_local self then ret ()
     else
     bnd (logger INFO ''Provisioning local Kubeflow Pipelines deployment...'') (\<lambda>_.
     bnd (int_of_text hs (last_segment (reg_uri reg))) (\<lambda>container_registry_port.
     let container_registry_name = get_k3d_registry_name container_registry_port in
     bnd (call (WriteLocalRegistryYaml (k3d_registry_config_path hs self) container_registry_name
                  (reg_uri reg))
               (write_local_registry_yaml du (k3d_registry_config_path hs self)
                  container_registry_name (reg_uri reg))) (\<lambda>_.
     try_except
       (local_provisioning_sequence du hs self container_registry_name)
       (\<lambda>e. isinstance e Exception)
       (\<lambda>e.
          bnd (logger ERROR (exc_message e)) (\<lambda>_.
          bnd (list_manual_setup_steps du hs self container_registry_name
                 (k3d_registry_config_path hs self)) (\<lambda>_.
          deprovision du hs self))))))))))"

text \<open>The cluster part of \<open>resume\<close>: its first \<open>if\<close> statement after the checks.\<close>

definition resume_cluster ::
  "'w local_deployment_utils \<Rightarrow> KubeflowOrchestrator \<Rightarrow> string \<Rightarrow> ('w, event, unit) prog" where
  "resume_cluster du self ctx =
     bnd (if is_local self
          then bnd (eval_is_cluster_running du self) (\<lambda>cluster_running.
               ret (\<not> cluster_running))
          else ret False) (\<lambda>start_needed.
     if_then start_needed
       (bnd (call (StartK3dCluster (k3d_cluster_name self))
                  (start_k3d_cluster du (k3d_cluster_name self))) (\<lambda>_.
        call (WaitUntilKubeflowPipelinesReady ctx)
             (wait_until_kubeflow_pipelines_ready du ctx))))"

definition resume ::
  "'w local_deployment_utils \<Rightarrow> 'w host \<Rightarrow> KubeflowOrchestrator \<Rightarrow> ('w, event, unit) prog" where
  "resume du hs self =
     bnd (eval_is_running du hs self) (\<lambda>running.
     if running then logger INFO ''Local kubeflow pipelines deployment already running.''
     else
     bnd (eval_is_provisioned du self) (\<lambda>provisioned.
     if \<not> provisioned then
       raise (Exc ProvisioningError (''Unable to resume local kubeflow pipelines deployment: No ''
         @ ''resources provisioned for local deployment.''))
     else
     case kubernetes_context self of
       None \<Rightarrow> raise (Exc AssertionError [])
     | Some ctx \<Rightarrow>
     bnd (resume_cluster du self ctx) (\<lambda>_.
     bnd (eval_is_daemon_running hs self) (\<lambda>daemon_running.
     if_then (\<not> daemon_running)
       (bnd (eval_get_kfp_ui_daemon_port hs self) (\<lambda>port.
        call (StartKfpUiDaemon (pid_file_path hs self) (log_file hs self) port ctx)
             (start_kfp_ui_daemon du (pid_file_path hs self) (log_file hs self) port ctx)))))))"

definition suspend ::
  "'w local_deployment_utils \<Rightarrow> 'w host \<Rightarrow> KubeflowOrchestrator \<Rightarrow> ('w, event, unit) prog" where
  "suspend du hs self =
     bnd (eval_is_provisioned du self) (\<lambda>provisioned.
     if \<not> provisioned then logger INFO ''Local kubeflow pipelines deployment not provisioned.''
     else
     bnd (eval_is_daemon_running hs self) (\<lambda>daemon_running.
     bnd (if_then daemon_running
            (call (StopKfpUiDaemon (pid_file_path hs self))
                  (stop_kfp_ui_daemon du (pid_file_path hs self)))) (\<lambda>_.
     bnd (if is_local self then eval_is_cluster_running du self else ret False)
       (\<lambda>stop_needed.
     if_then stop_needed
       (call (StopK3dCluster (k3d_cluster_name self))
             (stop_k3d_cluster du (k3d_cluster_name self)))))))"

subsection \<open>Run submission\<close>

record schedule =
  utc_start_time :: "string option"
  utc_end_time :: "string option"
  sched_interval_second :: int
  catchup :: bool

record runtime_configuration =
  rc_schedule :: "schedule option"
  run_name :: "string option"

definition str_opt :: "string option \<Rightarrow> string" where
  \<comment> \<open>\<open>%s\<close> of an \<open>Optional[str]\<close>\<close>
  "str_opt s = (case s of None \<Rightarrow> ''None'' | Some x \<Rightarrow> x)"

text \<open>The body of the \<open>try\<close> statement of \<open>_upload_and_run_pipeline\<close>.\<close>

definition submit_run ::
  "'w kfp_client \<Rightarrow> KubeflowOrchestrator \<Rightarrow> string \<Rightarrow> string \<Rightarrow> runtime_configuration \<Rightarrow> bool
     \<Rightarrow> ('w, event, unit) prog" where
  "submit_run client self pipeline_name pipeline_file_path runtime_config enable_cache =
     bnd (logger INFO (''Running in kubernetes context '' @ [CHR 0x27]
            @ str_opt (kubernetes_context self) @ [CHR 0x27] @ ''.'')) (\<lambda>_.
     bnd (call (KfpClient (kubernetes_context self))
               (kfp_Client client (kubernetes_context self))) (\<lambda>_.
     case rc_schedule runtime_config of
       Some sched \<Rightarrow>
         bnd (try_except
                (bnd (call (GetExperiment pipeline_name) (get_experiment client pipeline_name))
                   (\<lambda>experiment.
                 bnd (logger INFO (''A recurring run has already been created with this ''
                        @ ''pipeline. Creating new recurring run now..'')) (\<lambda>_.
                 ret experiment)))
                (\<lambda>e. isinstance e ValueError \<or> isinstance e ApiException)
                (\<lambda>e.
                 bnd (call (CreateExperiment pipeline_name)
                           (create_experiment client pipeline_name)) (\<lambda>experiment.
                 bnd (logger INFO (''Creating a new recurring run for pipeline '' @ [CHR 0x27]
                        @ pipeline_name @ [CHR 0x27] @ ''.. '')) (\<lambda>_.
                 ret experiment)))) (\<lambda>experiment.
         bnd (logger INFO (''You can see all recurring runs under the '' @ [CHR 0x27]
                @ pipeline_name @ [CHR 0x27] @ '' experiment.'' @ [CHR 0x27])) (\<lambda>_.
         let args = \<lparr>experiment_id = experiment, job_name = run_name runtime_config,
                      pipeline_package_path = pipeline_file_path,
                      enable_caching = enable_cache,
                      start_time = utc_start_time sched, end_time = utc_end_time sched,
                      interval_second = sched_interval_second sched,
                      no_catchup = (\<not> catchup sched)\<rparr> in
         bnd (call (CreateRecurringRun args) (create_recurring_run client args)) (\<lambda>result_id.
         logger INFO (''Started recurring run with ID '' @ [CHR 0x27] @ result_id
           @ [CHR 0x27] @ ''.''))))
     | None \<Rightarrow>
         bnd (logger INFO ''No schedule detected. Creating a one-off pipeline run..'') (\<lambda>_.
         bnd (call (CreateRunFromPipelinePackage pipeline_file_path (run_name runtime_config)
                      enable_cache)
                   (create_run_from_pipeline_package client pipeline_file_path
                      (run_name runtime_config) enable_cache)) (\<lambda>run_id.
         bnd (logger INFO (''Started one-off pipeline run with ID '' @ [CHR 0x27] @ run_id
                @ [CHR 0x27] @ ''.'')) (\<lambda>_.
         if_then (synchronous self)
           (call (WaitForRunCompletion run_id 1200)
                 (wait_for_run_completion client run_id 1200)))))))"

definition upload_failure_warning :: "exn \<Rightarrow> string" where
  "upload_failure_warning error =
     ''Failed to upload Kubeflow pipeline: '' @ exc_message error
     @ ''. Please make sure your kube config is configured and the ''
     @ ''current context is set correctly.''"

definition upload_and_run_pipeline ::
  "'w kfp_client \<Rightarrow> KubeflowOrchestrator \<Rightarrow> string \<Rightarrow> string \<Rightarrow> runtime_configuration \<Rightarrow> bool
     \<Rightarrow> ('w, event, unit) prog" where
  "upload_and_run_pipeline client self pipeline_name pipeline_file_path runtime_config enable_cache =
     try_except
       (submit_run client self pipeline_name pipeline_file_path runtime_config enable_cache)
       (\<lambda>e. isinstance e HTTPError)
       (\<lambda>error. logger WARNING (upload_failure_warning error))"

section \<open>The pipeline command (cli/pipeline.py)\<close>

subsection \<open>Configuration values\<close>

text \<open>
  What \<open>read_yaml\<close> can return: \<open>None\<close>, booleans, integers, strings, lists and
  dictionaries (the items in their order), and \<open>YOther n b\<close> for a value of any other
  type (a float, a date, bytes, a set), of which the code reads only the type's name
  \<open>n\<close> and the truth value \<open>b\<close>.
\<close>

datatype yaml =
    YNone | YBool bool | YInt int | is_YStr: YStr string
  | YList "yaml list" | is_YDict: YDict "(yaml \<times> yaml) list" | YOther string bool

fun type_name :: "yaml \<Rightarrow> string" where
  "type_name YNone = ''NoneType''"
| "type_name (YBool b) = ''bool''"
| "type_name (YInt i) = ''int''"
| "type_name (YStr s) = ''str''"
| "type_name (YList xs) = ''list''"
| "type_name (YDict kvs) = ''dict''"
| "type_name (YOther n b) = n"

fun truthy :: "yaml \<Rightarrow> bool" where
  "truthy YNone = False"
| "truthy (YBool b) = b"
| "truthy (YInt i) = (i \<noteq> 0)"
| "truthy (YStr s) = (s \<noteq> [])"
| "truthy (YList xs) = (xs \<noteq> [])"
| "truthy (YDict kvs) = (kvs \<noteq> [])"
| "truthy (YOther n b) = b"

text \<open>
  \<open>value[key]\<close>, \<open>value.items()\<close> and \<open>value.get(key, None)\<close> for a string \<open>key\<close>, with
  the errors Python raises on a value that is not a dictionary. The messages of
  Python's own errors are abbreviated.
\<close>

definition subscript :: "yaml \<Rightarrow> string \<Rightarrow> exn + yaml" where
  "subscript v key =
     (case v of
        YDict kvs \<Rightarrow>
          (case map_of kvs (YStr key) of
             Some x \<Rightarrow> Inr x
           | None \<Rightarrow> Inl (Exc KeyError ([CHR 0x27] @ key @ [CHR 0x27])))
      | _ \<Rightarrow> Inl (Exc TypeError (type_name v @ '' cannot be indexed with a str'')))"

definition dict_items :: "yaml \<Rightarrow> exn + (yaml \<times> yaml) list" where
  "dict_items v =
     (case v of
        YDict kvs \<Rightarrow> Inr kvs
      | _ \<Rightarrow> Inl (Exc AttributeError (type_name v @ '' object has no attribute items'')))"

definition dict_get :: "yaml \<Rightarrow> string \<Rightarrow> exn + yaml" where
  "dict_get v key =
     (case v of
        YDict kvs \<Rightarrow> Inr (case map_of kvs (YStr key) of Some x \<Rightarrow> x | None \<Rightarrow> YNone)
      | _ \<Rightarrow> Inl (Exc AttributeError (type_name v @ '' object has no attribute get'')))"

definition lift :: "exn + 'a \<Rightarrow> ('w, 'e, 'a) prog" where
  \<comment> \<open>a computation without effects: its result, or the exception it raises\<close>
  "lift r = (\<lambda>s. (r, s))"

subsection \<open>Configuration keys\<close>

text \<open>
  Modelled from the spec: the module \<open>zenml.config.config_keys\<close> (the key classes and
  their \<open>key_check\<close>) is not among the sources. The spec gives the keys: a document
  requires \<open>name\<close> and \<open>steps\<close>; a step requires \<open>source\<close> and may have
  \<open>materializers\<close>; a source has \<open>name\<close> and an optional \<open>file\<close>. Of \<open>key_check\<close> it
  says that missing required keys fail with a configuration error enumerating exactly
  the missing keys. It says nothing of other keys, which pass here, nor of a value that
  is not a mapping, which has no keys here.
\<close>

definition PipelineConfigurationKeys_NAME :: string where
  \<comment> \<open>Modelled from the spec: the required top-level key \<open>name\<close>.\<close>
  "PipelineConfigurationKeys_NAME = ''name''"

definition PipelineConfigurationKeys_STEPS :: string where
  \<comment> \<open>Modelled from the spec: the required top-level key \<open>steps\<close>.\<close>
  "PipelineConfigurationKeys_STEPS = ''steps''"

definition StepConfigurationKeys_SOURCE :: string where
  \<comment> \<open>Modelled from the spec: the required step key \<open>source\<close>.\<close>
  "StepConfigurationKeys_SOURCE = ''source''"

definition StepConfigurationKeys_MATERIALIZERS :: string where
  \<comment> \<open>Modelled from the spec: the optional step key \<open>materializers\<close>.\<close>
  "StepConfigurationKeys_MATERIALIZERS = ''materializers''"

definition SourceConfigurationKeys_NAME :: string where
  \<comment> \<open>Modelled from the spec: the key \<open>name\<close> of a structured source.\<close>
  "SourceConfigurationKeys_NAME = ''name''"

definition SourceConfigurationKeys_FILE :: string where
  \<comment> \<open>Modelled from the spec: the optional key \<open>file\<close> of a structured source.\<close>
  "SourceConfigurationKeys_FILE = ''file''"

definition pipeline_required_keys :: "string list" where
  \<comment> \<open>Modelled from the spec: the required keys of a specification document.\<close>
  "pipeline_required_keys = [PipelineConfigurationKeys_NAME, PipelineConfigurationKeys_STEPS]"

definition step_required_keys :: "string list" where
  \<comment> \<open>Modelled from the spec: the required keys of a step configuration.\<close>
  "step_required_keys = [StepConfigurationKeys_SOURCE]"

definition yaml_keys :: "yaml \<Rightarrow> yaml list" where
  "yaml_keys v = (case v of YDict kvs \<Rightarrow> map fst kvs | _ \<Rightarrow> [])"

definition missing_keys :: "string list \<Rightarrow> yaml \<Rightarrow> string list" where
  \<comment> \<open>Modelled from the spec: the required keys the value does not have, in their order.\<close>
  "missing_keys required config = filter (\<lambda>k. YStr k \<notin> set (yaml_keys config)) required"

definition missing_keys_message :: "string list \<Rightarrow> string" where
  \<comment> \<open>Modelled from the spec: a message enumerating the missing keys.\<close>
  "missing_keys_message missing = ''Missing key(s): '' @ str_join '', '' missing"

definition key_check :: "string list \<Rightarrow> yaml \<Rightarrow> exn + unit" where
  \<comment> \<open>Modelled from the spec: \<open>key_check\<close> of a key class with the given required keys.\<close>
  "key_check required config =
     (if missing_keys required config = [] then Inr ()
      else Inl (Exc PipelineConfigurationError
                  (missing_keys_message (missing_keys required config))))"

subsection \<open>Modules, objects and the calls into them\<close>

text \<open>
  Python objects (classes, instances) are values of an open type \<open>'o\<close>. A module is its
  \<open>__file__\<close> and its attributes. Importing a file, reading the document, calling a
  class and the methods of steps and pipelines are parameters, as are \<open>str\<close> of a value
  that is not a string and \<open>textwrap.dedent\<close>.
\<close>

record 'o py_module =
  module_file :: string
  module_attrs :: "(string \<times> 'o) list"

datatype 'o materializers =
    SingleMaterializer 'o
  | OutputMaterializers "(yaml \<times> 'o) list"

record ('o, 'w) python =
  import_python_file :: "yaml \<Rightarrow> 'w \<Rightarrow> (exn + 'o py_module) \<times> 'w"
  read_yaml :: "string \<Rightarrow> 'w \<Rightarrow> (exn + yaml) \<times> 'w"
  py_str :: "yaml \<Rightarrow> string"
  textwrap_dedent :: "string \<Rightarrow> string"
  call_class :: "'o \<Rightarrow> 'w \<Rightarrow> (exn + 'o) \<times> 'w"
  with_return_materializers :: "'o \<Rightarrow> 'o materializers \<Rightarrow> 'w \<Rightarrow> (exn + 'o) \<times> 'w"
  call_pipeline_class :: "'o \<Rightarrow> (string \<times> 'o) list \<Rightarrow> 'w \<Rightarrow> (exn + 'o) \<times> 'w"
  with_config :: "'o \<Rightarrow> string \<Rightarrow> bool \<Rightarrow> 'w \<Rightarrow> (exn + 'o) \<times> 'w"
  run_instance :: "'o \<Rightarrow> 'w \<Rightarrow> (exn + unit) \<times> 'w"

datatype 'o cli_event =
    ImportPythonFile yaml
  | ReadYaml string
  | Instantiate 'o
  | WithReturnMaterializers 'o "'o materializers"
  | InstantiatePipeline 'o "(string \<times> 'o) list"
  | WithConfig 'o string bool
  | RunInstance 'o
  | LogDebug string

definition format_value :: "('o, 'w) python \<Rightarrow> yaml \<Rightarrow> string" where
  \<comment> \<open>a value inside an f-string or under \<open>%s\<close>: a string stands for itself\<close>
  "format_value env v = (case v of YStr s \<Rightarrow> s | _ \<Rightarrow> py_str env v)"

subsection \<open>Resolving a source reference\<close>

definition get_module_attribute :: "'o py_module \<Rightarrow> yaml \<Rightarrow> exn + 'o" where
  "get_module_attribute module attribute_name =
     (case attribute_name of
        YStr n \<Rightarrow>
          (case map_of (module_attrs module) n of
             Some x \<Rightarrow> Inr x
           | None \<Rightarrow>
               Inl (Exc PipelineConfigurationError
                      (''Unable to load '' @ [CHR 0x27] @ n @ [CHR 0x27] @ '' from file ''
                       @ [CHR 0x27] @ module_file module @ [CHR 0x27])))
      | _ \<Rightarrow> Inl (Exc TypeError ''attribute name must be string''))"

definition correct_input :: "('o, 'w) python \<Rightarrow> string \<Rightarrow> string" where
  "correct_input env config_item =
     textwrap_dedent env
       ([CHR 0x0A] @ ''        '' @ SourceConfigurationKeys_NAME @ '': '' @ config_item
        @ [CHR 0x0A] @ ''        '' @ SourceConfigurationKeys_FILE @ '': optional/filepath.py''
        @ [CHR 0x0A] @ ''        '')"

definition structured_form_instruction :: string where
  "structured_form_instruction =
     ''As of ZenML version 0.8.0 `str` entries are no longer supported ''
     @ ''to define steps or materializers. Instead you will now need to ''
     @ ''pass a dictionary. This dictionary **has to** contain a ''
     @ ''`'' @ SourceConfigurationKeys_NAME @ ''` which refers to the function/''
     @ ''class name. If this entity is defined outside the main module,''
     @ ''you will need to additionally supply a ''
     @ SourceConfigurationKeys_FILE @ '' with the relative forward-slash-''
     @ ''separated path to the file. '' @ [CHR 0x0A]"

definition str_entry_message :: "('o, 'w) python \<Rightarrow> string \<Rightarrow> string" where
  "str_entry_message env config_item =
     structured_form_instruction
     @ ''You tried to pass in `'' @ config_item @ ''` - however you should have ''
     @ ''specified the name (and file) like this:''
     @ '' '' @ correct_input env config_item"

definition type_mismatch_message :: "('o, 'w) python \<Rightarrow> string \<Rightarrow> yaml \<Rightarrow> string" where
  "type_mismatch_message env attribute v =
     ''Only `str` and `dict` values are allowed for ''
     @ [CHR 0x27] @ attribute @ [CHR 0x27] @ '' attribute of a step configuration. You ''
     @ ''tried to pass in `'' @ format_value env v @ ''` (type: ''
     @ ''`'' @ type_name v @ ''`).''"

definition get_module ::
  "('o, 'w) python \<Rightarrow> 'o py_module \<Rightarrow> yaml \<Rightarrow> ('w, 'o cli_event, 'o) prog" where
  "get_module env module config_item =
     (case config_item of
        YDict kvs \<Rightarrow>
          bnd (case map_of kvs (YStr SourceConfigurationKeys_FILE) of
                 Some file \<Rightarrow> call (ImportPythonFile file) (import_python_file env file)
               | None \<Rightarrow> ret module) (\<lambda>module.
          bnd (lift (subscript config_item SourceConfigurationKeys_NAME)) (\<lambda>implementation_name.
          lift (get_module_attribute module implementation_name)))
      | YStr s \<Rightarrow> raise (Exc PipelineConfigurationError (str_entry_message env s))
      | _ \<Rightarrow> raise (Exc PipelineConfigurationError
                      (type_mismatch_message env ''step_source'' config_item)))"

subsection \<open>The run command\<close>

fun resolve_outputs ::
  "('o, 'w) python \<Rightarrow> 'o py_module \<Rightarrow> (yaml \<times> yaml) list
     \<Rightarrow> ('w, 'o cli_event, (yaml \<times> 'o) list) prog" where
  "resolve_outputs env module [] = ret []"
| "resolve_outputs env module ((output_name, source) # rest) =
     bnd (get_module env module source) (\<lambda>materializer.
     bnd (resolve_outputs env module rest) (\<lambda>others.
     ret ((output_name, materializer) # others)))"

definition resolve_materializers ::
  "('o, 'w) python \<Rightarrow> 'o py_module \<Rightarrow> yaml \<Rightarrow> ('w, 'o cli_event, 'o materializers) prog" where
  "resolve_materializers env module materializers_config =
     (case materializers_config of
        YStr s \<Rightarrow>
          bnd (get_module env module materializers_config) (\<lambda>materializer.
          ret (SingleMaterializer materializer))
      | YDict kvs \<Rightarrow>
          bnd (resolve_outputs env module kvs) (\<lambda>outputs. ret (OutputMaterializers outputs))
      | _ \<Rightarrow> raise (Exc PipelineConfigurationError
                      (type_mismatch_message env ''materializers'' materializers_config)))"

text \<open>The body of the loop over the steps, up to the step instance it stores.\<close>

definition resolve_step ::
  "('o, 'w) python \<Rightarrow> 'o py_module \<Rightarrow> yaml \<Rightarrow> ('w, 'o cli_event, 'o) prog" where
  "resolve_step env module step_config =
     bnd (lift (key_check step_required_keys step_config)) (\<lambda>_.
     bnd (lift (subscript step_config StepConfigurationKeys_SOURCE)) (\<lambda>source.
     bnd (get_module env module source) (\<lambda>step_class.
     bnd (call (Instantiate step_class) (call_class env step_class)) (\<lambda>step_instance.
     bnd (lift (dict_get step_config StepConfigurationKeys_MATERIALIZERS)) (\<lambda>materializers_config.
     if truthy materializers_config then
       bnd (resolve_materializers env module materializers_config) (\<lambda>materializers.
       call (WithReturnMaterializers step_instance materializers)
            (with_return_materializers env step_instance materializers))
     else ret step_instance)))))"

fun resolve_steps ::
  "('o, 'w) python \<Rightarrow> 'o py_module \<Rightarrow> (yaml \<times> yaml) list \<Rightarrow> (yaml \<times> 'o) list
     \<Rightarrow> ('w, 'o cli_event, (yaml \<times> 'o) list) prog" where
  "resolve_steps env module [] steps = ret steps"
| "resolve_steps env module ((step_name, step_config) # rest) steps =
     bnd (resolve_step env module step_config) (\<lambda>step_instance.
     resolve_steps env module rest (AList.update step_name step_instance steps))"

fun keyword_arguments :: "(yaml \<times> 'o) list \<Rightarrow> exn + (string \<times> 'o) list" where
  \<comment> \<open>\<open>**steps\<close>: the keys must be strings\<close>
  "keyword_arguments [] = Inr []"
| "keyword_arguments ((YStr k, v) # rest) =
     (case keyword_arguments rest of Inl e \<Rightarrow> Inl e | Inr kw \<Rightarrow> Inr ((k, v) # kw))"
| "keyword_arguments ((_, v) # rest) = Inl (Exc TypeError ''keywords must be strings'')"

definition run_pipeline ::
  "('o, 'w) python \<Rightarrow> string \<Rightarrow> string \<Rightarrow> ('w, 'o cli_event, unit) prog" where
  "run_pipeline env python_file config_path =
     bnd (call (ImportPythonFile (YStr python_file))
               (import_python_file env (YStr python_file))) (\<lambda>module.
     bnd (call (ReadYaml config_path) (read_yaml env config_path)) (\<lambda>config.
     bnd (lift (key_check pipeline_required_keys config)) (\<lambda>_.
     bnd (lift (subscript config PipelineConfigurationKeys_NAME)) (\<lambda>pipeline_name.
     bnd (lift (get_module_attribute module pipeline_name)) (\<lambda>pipeline_class.
     bnd (lift (subscript config PipelineConfigurationKeys_STEPS)) (\<lambda>steps_config.
     bnd (lift (dict_items steps_config)) (\<lambda>items.
     bnd (resolve_steps env module items []) (\<lambda>steps.
     bnd (lift (keyword_arguments steps)) (\<lambda>kwargs.
     bnd (call (InstantiatePipeline pipeline_class kwargs)
               (call_pipeline_class env pipeline_class kwargs)) (\<lambda>pipeline.
     bnd (call (WithConfig pipeline config_path True)
               (with_config env pipeline config_path True)) (\<lambda>pipeline_instance.
     bnd (emit (LogDebug (''Finished setting up pipeline '' @ [CHR 0x27]
                  @ format_value env pipeline_name @ [CHR 0x27] @ '' from CLI''))) (\<lambda>_.
     call (RunInstance pipeline_instance) (run_instance env pipeline_instance)))))))))))))"

section \<open>Concrete collaborators\<close>

text \<open>
  A small world on which the operations can be evaluated: flags for the installed
  tools, the cluster, the daemon and the log file, and the occupied ports. Creating the
  cluster fails with the given exception, if one is given, after leaving a cluster
  behind.
\<close>

record world =
  tools_installed :: bool
  cluster_present :: bool
  cluster_up :: bool
  daemon_up :: bool
  log_present :: bool
  busy_ports :: "int list"

definition ex_utils :: "exn option \<Rightarrow> world local_deployment_utils" where
  "ex_utils create_error =
     \<lparr>K3S_IMAGE_NAME = ''rancher/k3s:v1'', KFP_VERSION = ''1.8.1'',
      check_prerequisites = tools_installed,
      k3d_cluster_exists = (\<lambda>n. cluster_present),
      k3d_cluster_running = (\<lambda>n. cluster_up),
      write_local_registry_yaml = (\<lambda>p n u w. (Inr (), w)),
      create_k3d_cluster = (\<lambda>c n p w.
        case create_error of
          Some e \<Rightarrow> (Inl e, w\<lparr>cluster_present := True\<rparr>)
        | None \<Rightarrow> (Inr (), w\<lparr>cluster_present := True, cluster_up := True\<rparr>)),
      deploy_kubeflow_pipelines = (\<lambda>c w. (Inr (), w)),
      add_hostpath_to_kubeflow_pipelines = (\<lambda>c p w. (Inr (), w)),
      delete_k3d_cluster = (\<lambda>n w. (Inr (), w\<lparr>cluster_present := False, cluster_up := False\<rparr>)),
      start_k3d_cluster = (\<lambda>n w. (Inr (), w\<lparr>cluster_up := True\<rparr>)),
      stop_k3d_cluster = (\<lambda>n w. (Inr (), w\<lparr>cluster_up := False\<rparr>)),
      wait_until_kubeflow_pipelines_ready = (\<lambda>c w. (Inr (), w)),
      start_kfp_ui_daemon = (\<lambda>p l port c w. (Inr (), w\<lparr>daemon_up := True\<rparr>)),
      stop_kfp_ui_daemon = (\<lambda>p w. (Inr (), w\<lparr>daemon_up := False\<rparr>))\<rparr>"

definition ex_registry :: container_registry where
  "ex_registry = \<lparr>reg_name = ''local_registry'', reg_uri = ''localhost:5000'', reg_is_local = True\<rparr>"

definition ex_host :: "world host" where
  "ex_host =
     \<lparr>sys_platform = ''linux'',
      get_global_config_directory = ''/cfg'',
      os_path_join = str_join ''/'',
      check_if_daemon_is_running = (\<lambda>p. daemon_up),
      active_container_registry = (\<lambda>w. Some ex_registry),
      active_artifact_store = (\<lambda>w. \<lparr>store_is_LocalArtifactStore = True, store_path = ''/cfg/store''\<rparr>),
      fileio_makedirs = (\<lambda>p w. (Inr (), w)),
      fileio_exists = (\<lambda>p. log_present),
      fileio_remove = (\<lambda>p w. (Inr (), w\<lparr>log_present := False\<rparr>)),
      port_available = (\<lambda>p w. p \<notin> set (busy_ports w)),
      find_available_port = (\<lambda>w. 8081),
      py_int = (\<lambda>s. if s = ''5000'' then Some 5000 else None)\<rparr>"

definition ex_local_orchestrator :: KubeflowOrchestrator where
  "ex_local_orchestrator =
     \<lparr>orch_uuid = ''0f1e2d3c-4b5a-6978-8796-a5b4c3d2e1f0'',
      custom_docker_base_image_name = None,
      kubeflow_pipelines_ui_port = 8080,
      kubernetes_context = Some ''k3d-zenml-kubeflow-0f1e2d3c'',
      synchronous = False\<rparr>"

definition ex_remote_orchestrator :: KubeflowOrchestrator where
  "ex_remote_orchestrator = ex_local_orchestrator\<lparr>kubernetes_context := Some ''gke-prod''\<rparr>"

definition ex_world :: world where
  "ex_world =
     \<lparr>tools_installed = True, cluster_present = False, cluster_up = False,
      daemon_up = False, log_present = False, busy_ports = []\<rparr>"

definition ex_local_store :: stack_component where
  "ex_local_store =
     \<lparr>comp_name = ''local_store'', comp_type_value = ''artifact_store'',
      local_path = Some ''/cfg/store''\<rparr>"

definition ex_remote_store :: stack_component where
  "ex_remote_store =
     \<lparr>comp_name = ''bucket'', comp_type_value = ''artifact_store'', local_path = None\<rparr>"

definition ex_metadata_store :: stack_component where
  "ex_metadata_store =
     \<lparr>comp_name = ''sqlite'', comp_type_value = ''metadata_store'',
      local_path = Some ''/cfg/metadata''\<rparr>"

definition ex_remote_registry :: container_registry where
  "ex_remote_registry =
     \<lparr>reg_name = ''ecr'', reg_uri = ''registry.example.com'', reg_is_local = False\<rparr>"

text \<open>
  A submission client whose one-off run creation raises the given exception, a run
  without a schedule, and an orchestrator configured with a port of its own.
\<close>

definition ex_client :: "exn \<Rightarrow> unit kfp_client" where
  "ex_client run_error =
     \<lparr>kfp_Client = (\<lambda>c w. (Inr (), w)),
      get_experiment = (\<lambda>n w. (Inl (Exc ValueError ''No experiment is found''), w)),
      create_experiment = (\<lambda>n w. (Inr ''experiment-1'', w)),
      create_recurring_run = (\<lambda>a w. (Inr ''job-1'', w)),
      create_run_from_pipeline_package = (\<lambda>p n c w. (Inl run_error, w)),
      wait_for_run_completion = (\<lambda>r t w. (Inr (), w))\<rparr>"

definition ex_lookup_client :: "exn \<Rightarrow> unit kfp_client" where
  \<comment> \<open>a client whose experiment lookup raises the given exception; all else succeeds\<close>
  "ex_lookup_client lookup_error =
     \<lparr>kfp_Client = (\<lambda>c w. (Inr (), w)),
      get_experiment = (\<lambda>n w. (Inl lookup_error, w)),
      create_experiment = (\<lambda>n w. (Inr ''experiment-1'', w)),
      create_recurring_run = (\<lambda>a w. (Inr ''job-1'', w)),
      create_run_from_pipeline_package = (\<lambda>p n c w. (Inr ''run-id-1'', w)),
      wait_for_run_completion = (\<lambda>r t w. (Inr (), w))\<rparr>"

definition ex_schedule :: schedule where
  "ex_schedule =
     \<lparr>utc_start_time = Some ''2022-05-01T00:00:00Z'', utc_end_time = None,
      sched_interval_second = 3600, catchup = False\<rparr>"

definition ex_recurring :: runtime_configuration where
  "ex_recurring = \<lparr>rc_schedule = Some ex_schedule, run_name = Some ''run-1''\<rparr>"

definition ex_one_off :: runtime_configuration where
  "ex_one_off = \<lparr>rc_schedule = None, run_name = Some ''run-1''\<rparr>"

definition ex_port_9000_orchestrator :: KubeflowOrchestrator where
  "ex_port_9000_orchestrator = ex_local_orchestrator\<lparr>kubeflow_pipelines_ui_port := 9000\<rparr>"

text \<open>
  A module defining a pipeline \<open>P\<close>, a step \<open>Step1\<close> and a materializer \<open>M\<close>, calls
  that always succeed, and some specification documents.
\<close>

definition ex_module :: "string py_module" where
  "ex_module =
     \<lparr>module_file = ''run.py'',
      module_attrs = [(''P'', ''P''), (''Step1'', ''Step1''), (''M'', ''M'')]\<rparr>"

definition ex_python :: "yaml \<Rightarrow> (string, unit) python" where
  "ex_python document =
     \<lparr>import_python_file = (\<lambda>f w. (Inr ex_module, w)),
      read_yaml = (\<lambda>p w. (Inr document, w)),
      py_str = (\<lambda>v. ''<value>''),
      textwrap_dedent = (\<lambda>s. s),
      call_class = (\<lambda>c w. (Inr (c @ ''()''), w)),
      with_return_materializers = (\<lambda>i m w. (Inr i, w)),
      call_pipeline_class = (\<lambda>c kw w. (Inr (c @ ''()''), w)),
      with_config = (\<lambda>i p b w. (Inr i, w)),
      run_instance = (\<lambda>i w. (Inr (), w))\<rparr>"

definition ex_source :: "string \<Rightarrow> yaml" where
  "ex_source n = YDict [(YStr ''name'', YStr n)]"

definition ex_document_second_step_incomplete :: yaml where
  "ex_document_second_step_incomplete =
     YDict [(YStr ''name'', YStr ''P''),
            (YStr ''steps'',
             YDict [(YStr ''s1'', YDict [(YStr ''source'', ex_source ''Step1'')]),
                    (YStr ''s2'', YDict [])])]"

definition ex_document_without_steps :: yaml where
  "ex_document_without_steps = YDict [(YStr ''name'', YStr ''P'')]"

definition ex_document_unknown_pipeline :: yaml where
  "ex_document_unknown_pipeline =
     YDict [(YStr ''name'', YStr ''Nope''),
            (YStr ''steps'', YDict [(YStr ''s1'', YDict [])])]"

definition ex_document_first_step_bare :: yaml where
  "ex_document_first_step_bare =
     YDict [(YStr ''name'', YStr ''P''),
            (YStr ''steps'',
             YDict [(YStr ''s1'', YDict [(YStr ''source'', YStr ''Step1'')]),
                    (YStr ''s2'', YDict [])])]"

definition ex_document_single_materializer :: "yaml \<Rightarrow> yaml" where
  "ex_document_single_materializer materializer =
     YDict [(YStr ''name'', YStr ''P''),
            (YStr ''steps'',
             YDict [(YStr ''s1'', YDict [(YStr ''source'', ex_source ''Step1''),
                                        (YStr ''materializers'', materializer)])])]"

section \<open>Properties\<close>

declare str_nat.simps [simp del]

lemmas prog_defs =
  ret_def raise_def bnd_def emit_def probe_def check_def call_def try_except_def if_then_def
  lift_def logger_def

lemmas path_defs =
  root_directory_def pipeline_directory_def pid_file_path_def log_file_def
  k3d_registry_config_path_def k3d_cluster_name_def get_k3d_cluster_name_def
  get_k3d_kubernetes_context_def

lemmas status_defs =
  is_local_def is_cluster_provisioned_def is_cluster_running_def is_daemon_running_def
  is_provisioned_def is_running_def is_suspended_def

lemmas eval_defs =
  eval_is_cluster_provisioned_def eval_is_cluster_running_def eval_is_daemon_running_def
  eval_is_provisioned_def eval_is_running_def eval_is_suspended_def
  eval_get_kfp_ui_daemon_port_def

lemmas ex_defs =
  ex_utils_def ex_host_def ex_registry_def ex_local_orchestrator_def
  ex_remote_orchestrator_def ex_world_def

subsection \<open>Evaluating a status property returns its value\<close>

lemma eval_is_cluster_provisioned_run:
  "eval_is_cluster_provisioned du self (w, t) =
     (Inr (is_cluster_provisioned du self w),
      (w, t @ trace_of (eval_is_cluster_provisioned du self) w))"
  by (simp add: eval_is_cluster_provisioned_def is_cluster_provisioned_def trace_of_def
      ret_def check_def)

lemma eval_is_cluster_running_run:
  "eval_is_cluster_running du self (w, t) =
     (Inr (is_cluster_running du self w),
      (w, t @ trace_of (eval_is_cluster_running du self) w))"
  by (simp add: eval_is_cluster_running_def is_cluster_running_def trace_of_def
      ret_def check_def)

lemma eval_is_daemon_running_run:
  "eval_is_daemon_running hs self (w, t) =
     (Inr (is_daemon_running hs self w),
      (w, t @ trace_of (eval_is_daemon_running hs self) w))"
  by (simp add: eval_is_daemon_running_def is_daemon_running_def trace_of_def
      ret_def check_def)

lemma eval_is_provisioned_run:
  "eval_is_provisioned du self (w, t) =
     (Inr (is_provisioned du self w), (w, t @ trace_of (eval_is_provisioned du self) w))"
  by (simp add: eval_is_provisioned_def eval_is_cluster_provisioned_def is_provisioned_def
      is_cluster_provisioned_def trace_of_def ret_def check_def bnd_def)

lemma eval_is_running_run:
  "eval_is_running du hs self (w, t) =
     (Inr (is_running du hs self w), (w, t @ trace_of (eval_is_running du hs self) w))"
  by (simp add: eval_defs is_cluster_provisioned_def is_cluster_running_def
      is_daemon_running_def is_provisioned_def is_running_def trace_of_def ret_def check_def
      bnd_def)

lemma eval_is_suspended_run:
  "eval_is_suspended du hs self (w, t) =
     (Inr (is_suspended du hs self w), (w, t @ trace_of (eval_is_suspended du hs self) w))"
  by (simp add: eval_defs is_cluster_provisioned_def is_cluster_running_def
      is_daemon_running_def is_provisioned_def is_suspended_def trace_of_def ret_def check_def
      bnd_def)

lemma eval_get_kfp_ui_daemon_port_run:
  "eval_get_kfp_ui_daemon_port hs self (w, t) =
     (Inr (get_kfp_ui_daemon_port hs self w),
      (w, t @ trace_of (eval_get_kfp_ui_daemon_port hs self) w))"
  by (simp add: eval_get_kfp_ui_daemon_port_def get_kfp_ui_daemon_port_def trace_of_def
      Let_def ret_def bnd_def check_def)

lemmas eval_runs =
  eval_is_cluster_provisioned_run eval_is_cluster_running_run eval_is_daemon_running_run
  eval_is_provisioned_run eval_is_running_run eval_is_suspended_run
  eval_get_kfp_ui_daemon_port_run

text \<open>The calls made by \<open>is_running\<close> when it is true: every check is reached.\<close>

lemma trace_of_is_running_true:
  "is_running du hs self w \<Longrightarrow>
     trace_of (eval_is_running du hs self) w =
       [CheckPrerequisites]
       @ (if is_local self
          then [K3dClusterExists (k3d_cluster_name self),
                K3dClusterRunning (k3d_cluster_name self)]
          else [])
       @ (if sys_platform hs \<noteq> ''win32''
          then [CheckIfDaemonIsRunning (pid_file_path hs self)] else [])"
  by (auto simp add: trace_of_def eval_defs is_cluster_provisioned_def
      is_cluster_running_def is_daemon_running_def is_provisioned_def is_running_def ret_def
      bnd_def check_def split: if_splits)

lemma first_local_component_split:
  "(\<forall>p \<in> set pre. \<not> truthy_str (local_path p)) \<Longrightarrow> truthy_str (local_path c) \<Longrightarrow>
   first_local_component (pre @ c # post) = Some c"
  by (induction pre) simp_all

lemma first_local_component_none:
  "(\<forall>p \<in> set cs. \<not> truthy_str (local_path p)) \<Longrightarrow> first_local_component cs = None"
  by (induction cs) simp_all

subsection \<open>The stack validator's rule\<close>

lemma is_local_ex_local: "is_local ex_local_orchestrator"
  by (simp add: is_local_def ex_local_orchestrator_def get_k3d_kubernetes_context_def
      get_k3d_cluster_name_def)

lemma is_local_ex_remote: "\<not> is_local ex_remote_orchestrator"
  by (simp add: is_local_def ex_remote_orchestrator_def ex_local_orchestrator_def
      get_k3d_kubernetes_context_def get_k3d_cluster_name_def)

text \<open>
  C1. On a stack that has a container registry, the custom rule of the validator
  answers as follows. When the orchestrator is not local: if the components, in their
  order, are \<open>pre @ c # post\<close> with no component of \<open>pre\<close> exposing a non-empty
  \<open>local_path\<close> and \<open>c\<close> exposing one, the rule fails with the reason that quotes the
  name of \<open>c\<close> and gives the value of its type; if no component exposes one, it fails
  when the registry is local, with the reason that gives the registry's name and URI, and
  succeeds with the empty reason otherwise. When the orchestrator is local, it fails when
  the registry is not local, with the reason that gives the registry's URI, and succeeds
  with the empty reason otherwise.
\<close>

theorem validate_local_requirements_rule:
  assumes "stack_container_registry stk = Some reg"
  shows "(\<not> is_local self \<longrightarrow>
            (\<forall>pre c post.
                components stk = pre @ c # post
                \<and> (\<forall>p \<in> set pre. \<not> truthy_str (local_path p))
                \<and> truthy_str (local_path c)
                \<longrightarrow> validate_local_requirements self stk
                      = Inr (False,
                          ''The Kubeflow orchestrator is not running in a local k3d cluster. ''
                          @ ''The '' @ [CHR 0x27] @ comp_name c @ [CHR 0x27] @ '' ''
                          @ comp_type_value c
                          @ '' is a local stack component and will not be available in the ''
                          @ ''Kubeflow pipeline step. Please ensure that you always use ''
                          @ ''non-local stack components with a remote Kubeflow orchestrator, ''
                          @ ''otherwise you may run into pipeline execution problems.''))
          \<and> ((\<forall>p \<in> set (components stk). \<not> truthy_str (local_path p))
                \<longrightarrow> validate_local_requirements self stk
                      = Inr (if reg_is_local reg
                             then (False,
                               ''The Kubeflow orchestrator is not running in a local k3d ''
                               @ ''cluster but the '' @ reg_name reg
                               @ '' container registry URI '' @ [CHR 0x27] @ reg_uri reg
                               @ [CHR 0x27] @ '' points to a local container registry. Please ''
                               @ ''ensure that you always use non-local stack components with ''
                               @ ''a remote Kubeflow orchestrator, otherwise you will run into ''
                               @ ''problems.'')
                             else (True, []))))
       \<and> (is_local self \<longrightarrow>
            validate_local_requirements self stk
              = Inr (if \<not> reg_is_local reg
                     then (False,
                       ''The container registry URI '' @ [CHR 0x27] @ reg_uri reg @ [CHR 0x27]
                       @ '' doesn'' @ [CHR 0x27] @ ''t match the expected format '' @ [CHR 0x27]
                       @ ''localhost:$PORT'' @ [CHR 0x27] @ ''. The local Kubeflow orchestrator ''
                       @ ''only works with a local container registry because it cannot ''
                       @ ''authenticate to external container registries.'')
                     else (True, [])))"
proof (intro conjI impI allI)
  fix pre c post
  assume remote: "\<not> is_local self"
    and split: "components stk = pre @ c # post
                \<and> (\<forall>p \<in> set pre. \<not> truthy_str (local_path p))
                \<and> truthy_str (local_path c)"
  from split have "first_local_component (components stk) = Some c"
    by (simp add: first_local_component_split)
  with assms remote
  show "validate_local_requirements self stk
          = Inr (False,
              ''The Kubeflow orchestrator is not running in a local k3d cluster. ''
              @ ''The '' @ [CHR 0x27] @ comp_name c @ [CHR 0x27] @ '' ''
              @ comp_type_value c
              @ '' is a local stack component and will not be available in the ''
              @ ''Kubeflow pipeline step. Please ensure that you always use ''
              @ ''non-local stack components with a remote Kubeflow orchestrator, ''
              @ ''otherwise you may run into pipeline execution problems.'')"
    by (simp add: validate_local_requirements_def local_component_reason_def)
next
  assume remote: "\<not> is_local self"
    and none: "\<forall>p \<in> set (components stk). \<not> truthy_str (local_path p)"
  from none have "first_local_component (components stk) = None"
    by (rule first_local_component_none)
  with assms remote
  show "validate_local_requirements self stk
          = Inr (if reg_is_local reg
                 then (False,
                   ''The Kubeflow orchestrator is not running in a local k3d ''
                   @ ''cluster but the '' @ reg_name reg
                   @ '' container registry URI '' @ [CHR 0x27] @ reg_uri reg
                   @ [CHR 0x27] @ '' points to a local container registry. Please ''
                   @ ''ensure that you always use non-local stack components with ''
                   @ ''a remote Kubeflow orchestrator, otherwise you will run into ''
                   @ ''problems.'')
                 else (True, []))"
    by (simp add: validate_local_requirements_def local_registry_reason_def)
next
  assume "is_local self"
  with assms
  show "validate_local_requirements self stk
          = Inr (if \<not> reg_is_local reg
                 then (False,
                   ''The container registry URI '' @ [CHR 0x27] @ reg_uri reg @ [CHR 0x27]
                   @ '' doesn'' @ [CHR 0x27] @ ''t match the expected format '' @ [CHR 0x27]
                   @ ''localhost:$PORT'' @ [CHR 0x27] @ ''. The local Kubeflow orchestrator ''
                   @ ''only works with a local container registry because it cannot ''
                   @ ''authenticate to external container registries.'')
                 else (True, []))"
    by (simp add: validate_local_requirements_def remote_registry_reason_def)
qed

theorem validate_local_requirements_rule_witness:
  "validate_local_requirements ex_remote_orchestrator
     \<lparr>components = [ex_remote_store, ex_metadata_store, ex_local_store],
      stack_container_registry = Some ex_remote_registry\<rparr>
     = Inr (False,
         ''The Kubeflow orchestrator is not running in a local k3d cluster. ''
         @ ''The '' @ [CHR 0x27] @ ''sqlite'' @ [CHR 0x27] @ '' metadata_store''
         @ '' is a local stack component and will not be available in the ''
         @ ''Kubeflow pipeline step. Please ensure that you always use ''
         @ ''non-local stack components with a remote Kubeflow orchestrator, ''
         @ ''otherwise you may run into pipeline execution problems.'')
   \<and> validate_local_requirements ex_remote_orchestrator
       \<lparr>components = [ex_remote_store], stack_container_registry = Some ex_registry\<rparr>
     = Inr (False,
         ''The Kubeflow orchestrator is not running in a local k3d ''
         @ ''cluster but the local_registry container registry URI '' @ [CHR 0x27]
         @ ''localhost:5000'' @ [CHR 0x27] @ '' points to a local container registry. Please ''
         @ ''ensure that you always use non-local stack components with ''
         @ ''a remote Kubeflow orchestrator, otherwise you will run into problems.'')
   \<and> validate_local_requirements ex_remote_orchestrator
       \<lparr>components = [ex_remote_store], stack_container_registry = Some ex_remote_registry\<rparr>
     = Inr (True, [])
   \<and> validate_local_requirements ex_local_orchestrator
       \<lparr>components = [ex_local_store], stack_container_registry = Some ex_remote_registry\<rparr>
     = Inr (False,
         ''The container registry URI '' @ [CHR 0x27] @ ''registry.example.com'' @ [CHR 0x27]
         @ '' doesn'' @ [CHR 0x27] @ ''t match the expected format '' @ [CHR 0x27]
         @ ''localhost:$PORT'' @ [CHR 0x27] @ ''. The local Kubeflow orchestrator ''
         @ ''only works with a local container registry because it cannot ''
         @ ''authenticate to external container registries.'')
   \<and> validate_local_requirements ex_local_orchestrator
       \<lparr>components = [ex_local_store], stack_container_registry = Some ex_registry\<rparr>
     = Inr (True, [])"
proof -
  have paths: "\<not> truthy_str (local_path ex_remote_store)"
    "truthy_str (local_path ex_metadata_store)"
    by (simp_all add: truthy_str_def ex_remote_store_def ex_metadata_store_def)
  have regs: "reg_is_local ex_registry" "\<not> reg_is_local ex_remote_registry"
    by (simp_all add: ex_registry_def ex_remote_registry_def)
  note remote = is_local_ex_remote and loc = is_local_ex_local
  let ?S = "\<lparr>components = [ex_remote_store, ex_metadata_store, ex_local_store],
             stack_container_registry = Some ex_remote_registry\<rparr>"
  have "\<forall>pre c post.
          components ?S = pre @ c # post
          \<and> (\<forall>p \<in> set pre. \<not> truthy_str (local_path p))
          \<and> truthy_str (local_path c)
          \<longrightarrow> validate_local_requirements ex_remote_orchestrator ?S
                = Inr (False,
                    ''The Kubeflow orchestrator is not running in a local k3d cluster. ''
                    @ ''The '' @ [CHR 0x27] @ comp_name c @ [CHR 0x27] @ '' ''
                    @ comp_type_value c
                    @ '' is a local stack component and will not be available in the ''
                    @ ''Kubeflow pipeline step. Please ensure that you always use ''
                    @ ''non-local stack components with a remote Kubeflow orchestrator, ''
                    @ ''otherwise you may run into pipeline execution problems.'')"
    using validate_local_requirements_rule [of ?S ex_remote_registry ex_remote_orchestrator]
      remote
    by simp
  then have "components ?S = [ex_remote_store] @ ex_metadata_store # [ex_local_store]
          \<and> (\<forall>p \<in> set [ex_remote_store]. \<not> truthy_str (local_path p))
          \<and> truthy_str (local_path ex_metadata_store)
          \<longrightarrow> validate_local_requirements ex_remote_orchestrator ?S
                = Inr (False,
                    ''The Kubeflow orchestrator is not running in a local k3d cluster. ''
                    @ ''The '' @ [CHR 0x27] @ comp_name ex_metadata_store @ [CHR 0x27] @ '' ''
                    @ comp_type_value ex_metadata_store
                    @ '' is a local stack component and will not be available in the ''
                    @ ''Kubeflow pipeline step. Please ensure that you always use ''
                    @ ''non-local stack components with a remote Kubeflow orchestrator, ''
                    @ ''otherwise you may run into pipeline execution problems.'')"
    by blast
  with paths
  have a: "validate_local_requirements ex_remote_orchestrator ?S
           = Inr (False,
               ''The Kubeflow orchestrator is not running in a local k3d cluster. ''
               @ ''The '' @ [CHR 0x27] @ ''sqlite'' @ [CHR 0x27] @ '' metadata_store''
               @ '' is a local stack component and will not be available in the ''
               @ ''Kubeflow pipeline step. Please ensure that you always use ''
               @ ''non-local stack components with a remote Kubeflow orchestrator, ''
               @ ''otherwise you may run into pipeline execution problems.'')"
    by (simp add: ex_metadata_store_def)
  have b: "validate_local_requirements ex_remote_orchestrator
             \<lparr>components = [ex_remote_store], stack_container_registry = Some ex_registry\<rparr>
           = Inr (False,
               ''The Kubeflow orchestrator is not running in a local k3d ''
               @ ''cluster but the local_registry container registry URI '' @ [CHR 0x27]
               @ ''localhost:5000'' @ [CHR 0x27] @ '' points to a local container registry. Please ''
               @ ''ensure that you always use non-local stack components with ''
               @ ''a remote Kubeflow orchestrator, otherwise you will run into problems.'')"
    using validate_local_requirements_rule
      [of "\<lparr>components = [ex_remote_store], stack_container_registry = Some ex_registry\<rparr>"
          ex_registry ex_remote_orchestrator]
      remote paths regs
    by (simp add: ex_registry_def)
  have c: "validate_local_requirements ex_remote_orchestrator
             \<lparr>components = [ex_remote_store],
              stack_container_registry = Some ex_remote_registry\<rparr>
           = Inr (True, [])"
    using validate_local_requirements_rule
      [of "\<lparr>components = [ex_remote_store],
            stack_container_registry = Some ex_remote_registry\<rparr>"
          ex_remote_registry ex_remote_orchestrator]
      remote paths regs
    by simp
  have d: "validate_local_requirements ex_local_orchestrator
             \<lparr>components = [ex_local_store],
              stack_container_registry = Some ex_remote_registry\<rparr>
           = Inr (False,
               ''The container registry URI '' @ [CHR 0x27] @ ''registry.example.com'' @ [CHR 0x27]
               @ '' doesn'' @ [CHR 0x27] @ ''t match the expected format '' @ [CHR 0x27]
               @ ''localhost:$PORT'' @ [CHR 0x27] @ ''. The local Kubeflow orchestrator ''
               @ ''only works with a local container registry because it cannot ''
               @ ''authenticate to external container registries.'')"
    using validate_local_requirements_rule
      [of "\<lparr>components = [ex_local_store],
            stack_container_registry = Some ex_remote_registry\<rparr>"
          ex_remote_registry ex_local_orchestrator]
      loc regs
    by (simp add: ex_remote_registry_def)
  have e: "validate_local_requirements ex_local_orchestrator
             \<lparr>components = [ex_local_store], stack_container_registry = Some ex_registry\<rparr>
           = Inr (True, [])"
    using validate_local_requirements_rule
      [of "\<lparr>components = [ex_local_store], stack_container_registry = Some ex_registry\<rparr>"
          ex_registry ex_local_orchestrator]
      loc regs
    by simp
  from a b c d e show ?thesis by simp
qed

subsection \<open>Status of a remote orchestrator\<close>

text \<open>
  C10. For an orchestrator that is not local, \<open>is_cluster_provisioned\<close> and
  \<open>is_cluster_running\<close> are true in every world, whatever the collaborators answer, and
  \<open>is_suspended\<close> is false in every world, whether or not the daemon is running.
\<close>

theorem remote_never_suspended:
  "\<not> is_local self \<Longrightarrow>
     is_cluster_provisioned du self w \<and> is_cluster_running du self w
     \<and> \<not> is_suspended du hs self w"
  by (simp add: is_cluster_provisioned_def is_cluster_running_def is_suspended_def)

theorem remote_never_suspended_witness:
  "is_cluster_provisioned (ex_utils None) ex_remote_orchestrator ex_world
   \<and> is_cluster_running (ex_utils None) ex_remote_orchestrator ex_world
   \<and> \<not> is_suspended (ex_utils None) ex_host ex_remote_orchestrator ex_world
   \<and> \<not> is_daemon_running ex_host ex_remote_orchestrator ex_world
   \<and> \<not> k3d_cluster_running (ex_utils None) (k3d_cluster_name ex_remote_orchestrator) ex_world"
  using remote_never_suspended [OF is_local_ex_remote, of "ex_utils None" ex_world ex_host]
  by (simp add: is_daemon_running_def ex_host_def ex_world_def ex_utils_def)

subsection \<open>Provisioning a running deployment\<close>

lemma trace_of_is_daemon_running:
  "trace_of (eval_is_daemon_running hs self) w =
     (if sys_platform hs \<noteq> ''win32''
      then [CheckIfDaemonIsRunning (pid_file_path hs self)] else [])"
  by (simp add: trace_of_def eval_is_daemon_running_def ret_def check_def)

lemma trace_of_get_kfp_ui_daemon_port:
  "trace_of (eval_get_kfp_ui_daemon_port hs self) w =
     (if kubeflow_pipelines_ui_port self = 8080
      then PortAvailable 8080 # (if \<not> port_available hs 8080 w then [FindAvailablePort] else [])
      else [])"
  by (simp add: trace_of_def eval_get_kfp_ui_daemon_port_def DEFAULT_KFP_UI_PORT_def Let_def
      ret_def check_def bnd_def)

text \<open>
  C2 as stated fails: \<open>provision\<close> begins by evaluating \<open>is_running\<close>, which
  evaluates \<open>is_provisioned\<close>, which calls \<open>check_prerequisites\<close>. A prerequisite check
  is therefore performed also when the deployment is running.
\<close>

theorem provision_running_checks_prerequisites_counterexample:
  "is_running (ex_utils None) ex_host ex_local_orchestrator
     (ex_world\<lparr>cluster_present := True, cluster_up := True, daemon_up := True\<rparr>)
   \<and> provision (ex_utils None) ex_host ex_local_orchestrator
        (ex_world\<lparr>cluster_present := True, cluster_up := True, daemon_up := True\<rparr>, [])
      = (Inr (),
         (ex_world\<lparr>cluster_present := True, cluster_up := True, daemon_up := True\<rparr>,
          [CheckPrerequisites,
           K3dClusterExists ''zenml-kubeflow-0f1e2d3c'',
           K3dClusterRunning ''zenml-kubeflow-0f1e2d3c'',
           CheckIfDaemonIsRunning (pid_file_path ex_host ex_local_orchestrator),
           Log INFO already_running_message]))"
  by (simp add: provision_def eval_defs prog_defs status_defs path_defs ex_defs)

text \<open>
  C2, amended. In every world in which \<open>is_running\<close> holds, \<open>provision\<close> returns
  normally and leaves the world as it is. The calls it makes are the status checks of
  \<open>is_running\<close> itself (the prerequisite check; for a local orchestrator, whether the
  cluster exists and whether it runs; except on win32, whether the daemon runs), followed
  by the informational log record. It makes no call that creates a directory, writes the
  registry configuration or creates a cluster. So a second \<open>provision\<close> on a backend
  that the first one left running changes nothing in the world.
\<close>

theorem provision_when_running:
  "is_running du hs self w \<Longrightarrow>
     provision du hs self (w, t) =
       (Inr (),
        (w, t @ [CheckPrerequisites]
              @ (if is_local self
                 then [K3dClusterExists (k3d_cluster_name self),
                       K3dClusterRunning (k3d_cluster_name self)]
                 else [])
              @ (if sys_platform hs \<noteq> ''win32''
                 then [CheckIfDaemonIsRunning (pid_file_path hs self)] else [])
              @ [Log INFO
                   (''Found already existing local Kubeflow Pipelines deployment. ''
                    @ ''If there are any issues with the existing deployment, please ''
                    @ ''run '' @ [CHR 0x27] @ ''zenml stack down --force'' @ [CHR 0x27]
                    @ '' to delete it.'')]))"
  by (simp add: provision_def bnd_def logger_def emit_def eval_is_running_run
      trace_of_is_running_true already_running_message_def)

theorem provision_when_running_witness:
  "fst (provision (ex_utils None) ex_host ex_local_orchestrator
          (ex_world\<lparr>daemon_up := True\<rparr>, [])) = Inr ()
   \<and> is_running (ex_utils None) ex_host ex_local_orchestrator
        (fst (snd (provision (ex_utils None) ex_host ex_local_orchestrator
                     (ex_world\<lparr>daemon_up := True\<rparr>, []))))
   \<and> provision (ex_utils None) ex_host ex_local_orchestrator
        (snd (provision (ex_utils None) ex_host ex_local_orchestrator
                (ex_world\<lparr>daemon_up := True\<rparr>, [])))
      = (Inr (),
         (fst (snd (provision (ex_utils None) ex_host ex_local_orchestrator
                      (ex_world\<lparr>daemon_up := True\<rparr>, []))),
          snd (snd (provision (ex_utils None) ex_host ex_local_orchestrator
                      (ex_world\<lparr>daemon_up := True\<rparr>, [])))
          @ [CheckPrerequisites,
             K3dClusterExists (k3d_cluster_name ex_local_orchestrator),
             K3dClusterRunning (k3d_cluster_name ex_local_orchestrator),
             CheckIfDaemonIsRunning (pid_file_path ex_host ex_local_orchestrator),
             Log INFO
               (''Found already existing local Kubeflow Pipelines deployment. ''
                @ ''If there are any issues with the existing deployment, please ''
                @ ''run '' @ [CHR 0x27] @ ''zenml stack down --force'' @ [CHR 0x27]
                @ '' to delete it.'')]))"
proof -
  obtain r w1 t1 where first:
    "provision (ex_utils None) ex_host ex_local_orchestrator (ex_world\<lparr>daemon_up := True\<rparr>, [])
       = (r, (w1, t1))"
    by (metis prod.exhaust)
  have w1: "w1 = ex_world\<lparr>daemon_up := True, cluster_present := True, cluster_up := True\<rparr>"
    and r: "r = Inr ()"
    using first
    by (simp_all add: provision_def local_provisioning_sequence_def int_of_text_def
        last_segment_def Let_def eval_defs prog_defs status_defs path_defs ex_defs)
  have running: "is_running (ex_utils None) ex_host ex_local_orchestrator w1"
    by (simp add: w1 status_defs path_defs ex_defs)
  have platform: "sys_platform ex_host \<noteq> ''win32''" by (simp add: ex_host_def)
  from provision_when_running [OF running, of t1] first r show ?thesis
    using running platform is_local_ex_local by simp
qed


subsection \<open>Failure inside the local provisioning sequence\<close>

lemma list_manual_setup_steps_run:
  "list_manual_setup_steps du hs self n p (w, t) = (Inr (), (w, t @ manual_setup_log du hs self n p))"
  by (simp add: list_manual_setup_steps_def manual_setup_log_def prog_defs)

lemma ex_trace_of_is_running:
  "trace_of (eval_is_running (ex_utils x) ex_host ex_local_orchestrator) ex_world
     = [CheckPrerequisites, K3dClusterExists (k3d_cluster_name ex_local_orchestrator)]"
  by (simp add: trace_of_def eval_defs prog_defs status_defs path_defs ex_defs)

text \<open>
  C3 as stated fails: when creating the cluster raises, \<open>provision\<close> logs, rolls back
  and then returns normally; the exception is not raised to the caller.
\<close>

theorem provision_swallows_exception_counterexample:
  "fst (create_k3d_cluster (ex_utils (Some (Exc RuntimeError ''k3d failed'')))
          (k3d_cluster_name ex_local_orchestrator) (get_k3d_registry_name 5000)
          (k3d_registry_config_path ex_host ex_local_orchestrator) ex_world)
     = Inl (Exc RuntimeError ''k3d failed'')
   \<and> fst (provision (ex_utils (Some (Exc RuntimeError ''k3d failed''))) ex_host
            ex_local_orchestrator (ex_world, [])) = Inr ()"
  by (simp add: provision_def local_provisioning_sequence_def deprovision_def
      list_manual_setup_steps_def int_of_text_def last_segment_def Let_def isinstance_def
      eval_defs prog_defs status_defs path_defs ex_defs)


text \<open>
  C3, amended. Let the steps before the \<open>try\<close> statement succeed (not running,
  prerequisites present, a registry whose port parses, directory and registry
  configuration written) and let the local provisioning sequence (cluster creation,
  platform deployment, mounting the artifact store's path) raise \<open>e\<close>. If \<open>e\<close> is an
  \<open>Exception\<close>, \<open>provision\<close> logs \<open>e\<close> as an error, logs the manual setup steps and
  then runs \<open>deprovision\<close>; it ends exactly as that \<open>deprovision\<close> ends, so it returns
  normally when \<open>deprovision\<close> does and \<open>e\<close> is never raised to the caller. If \<open>e\<close> is
  not an \<open>Exception\<close>, it is raised as it is, with no log and no rollback.
\<close>

theorem provision_rollback:
  assumes "\<not> is_running du hs self w"
    and "check_prerequisites du w"
    and "active_container_registry hs w = Some reg"
    and "fileio_makedirs hs (root_directory hs self) w = (Inr (), w1)"
    and "is_local self"
    and "py_int hs (last_segment (reg_uri reg)) = Some port"
    and "write_local_registry_yaml du (k3d_registry_config_path hs self)
           (get_k3d_registry_name port) (reg_uri reg) w1 = (Inr (), w2)"
    and "local_provisioning_sequence du hs self (get_k3d_registry_name port)
           (w2, t @ trace_of (eval_is_running du hs self) w
                  @ [CheckPrerequisites,
                     MakeDirs (root_directory hs self),
                     Log INFO ''Provisioning local Kubeflow Pipelines deployment...'',
                     WriteLocalRegistryYaml (k3d_registry_config_path hs self)
                       (get_k3d_registry_name port) (reg_uri reg)])
         = (Inl e, (w3, t3))"
  shows "provision du hs self (w, t) =
           (if isinstance e Exception
            then deprovision du hs self
                   (w3, t3 @ Log ERROR (exc_message e)
                           # manual_setup_log du hs self (get_k3d_registry_name port)
                               (k3d_registry_config_path hs self))
            else (Inl e, (w3, t3)))"
  using assms
  by (simp add: provision_def int_of_text_def Let_def list_manual_setup_steps_run
      eval_is_running_run
      ret_def raise_def bnd_def emit_def probe_def check_def call_def try_except_def
      logger_def)

theorem provision_rollback_witness:
  "provision (ex_utils (Some (Exc RuntimeError ''k3d failed''))) ex_host ex_local_orchestrator
     (ex_world, [])
   = deprovision (ex_utils (Some (Exc RuntimeError ''k3d failed''))) ex_host ex_local_orchestrator
       (ex_world\<lparr>cluster_present := True\<rparr>,
        [CheckPrerequisites,
         K3dClusterExists (k3d_cluster_name ex_local_orchestrator),
         CheckPrerequisites,
         MakeDirs (root_directory ex_host ex_local_orchestrator),
         Log INFO ''Provisioning local Kubeflow Pipelines deployment...'',
         WriteLocalRegistryYaml (k3d_registry_config_path ex_host ex_local_orchestrator)
           (get_k3d_registry_name 5000) ''localhost:5000'',
         CreateK3dCluster (k3d_cluster_name ex_local_orchestrator) (get_k3d_registry_name 5000)
           (k3d_registry_config_path ex_host ex_local_orchestrator),
         Log ERROR ''k3d failed'']
        @ manual_setup_log (ex_utils (Some (Exc RuntimeError ''k3d failed''))) ex_host
            ex_local_orchestrator (get_k3d_registry_name 5000)
            (k3d_registry_config_path ex_host ex_local_orchestrator))"
proof -
  let ?U = "ex_utils (Some (Exc RuntimeError ''k3d failed''))"
  have 1: "\<not> is_running ?U ex_host ex_local_orchestrator ex_world"
    by (simp add: status_defs path_defs ex_defs)
  have 2: "check_prerequisites ?U ex_world" by (simp add: ex_defs)
  have 3: "active_container_registry ex_host ex_world = Some ex_registry"
    by (simp add: ex_host_def)
  have 4: "fileio_makedirs ex_host (root_directory ex_host ex_local_orchestrator) ex_world
            = (Inr (), ex_world)"
    by (simp add: ex_host_def)
  have 6: "py_int ex_host (last_segment (reg_uri ex_registry)) = Some 5000"
    by (simp add: ex_host_def ex_registry_def last_segment_def)
  have 7: "write_local_registry_yaml ?U (k3d_registry_config_path ex_host ex_local_orchestrator)
             (get_k3d_registry_name 5000) (reg_uri ex_registry) ex_world = (Inr (), ex_world)"
    by (simp add: ex_utils_def)
  have 8: "local_provisioning_sequence ?U ex_host ex_local_orchestrator (get_k3d_registry_name 5000)
             (ex_world,
              [] @ trace_of (eval_is_running ?U ex_host ex_local_orchestrator) ex_world
                 @ [CheckPrerequisites,
                    MakeDirs (root_directory ex_host ex_local_orchestrator),
                    Log INFO ''Provisioning local Kubeflow Pipelines deployment...'',
                    WriteLocalRegistryYaml (k3d_registry_config_path ex_host ex_local_orchestrator)
                      (get_k3d_registry_name 5000) (reg_uri ex_registry)])
           = (Inl (Exc RuntimeError ''k3d failed''),
              (ex_world\<lparr>cluster_present := True\<rparr>,
               [CheckPrerequisites,
                K3dClusterExists (k3d_cluster_name ex_local_orchestrator),
                CheckPrerequisites,
                MakeDirs (root_directory ex_host ex_local_orchestrator),
                Log INFO ''Provisioning local Kubeflow Pipelines deployment...'',
                WriteLocalRegistryYaml (k3d_registry_config_path ex_host ex_local_orchestrator)
                  (get_k3d_registry_name 5000) (reg_uri ex_registry),
                CreateK3dCluster (k3d_cluster_name ex_local_orchestrator)
                  (get_k3d_registry_name 5000)
                  (k3d_registry_config_path ex_host ex_local_orchestrator)]))"
    unfolding ex_trace_of_is_running
    by (simp add: local_provisioning_sequence_def prog_defs ex_utils_def)
  have 9: "isinstance (Exc RuntimeError ''k3d failed'') Exception"
    by (simp add: isinstance_def)
  from provision_rollback [OF 1 2 3 4 is_local_ex_local 6 7 8] 9
  show ?thesis by (simp add: ex_registry_def)
qed

subsection \<open>Deprovisioning\<close>

text \<open>
  C4 as stated fails: \<open>deprovision\<close> never reads \<open>is_provisioned\<close>. On a local
  orchestrator whose prerequisites are missing, so that \<open>is_provisioned\<close> is false, it
  still calls the cluster deletion.
\<close>

theorem deprovision_unprovisioned_counterexample:
  "\<not> is_provisioned (ex_utils None) ex_local_orchestrator (ex_world\<lparr>tools_installed := False\<rparr>)
   \<and> deprovision (ex_utils None) ex_host ex_local_orchestrator
        (ex_world\<lparr>tools_installed := False\<rparr>, [])
      = (Inr (),
         (ex_world\<lparr>tools_installed := False\<rparr>,
          [CheckIfDaemonIsRunning (pid_file_path ex_host ex_local_orchestrator),
           DeleteK3dCluster ''zenml-kubeflow-0f1e2d3c'',
           Log INFO ''Local kubeflow pipelines deployment deprovisioned.'',
           FileExists (log_file ex_host ex_local_orchestrator)]))"
  by (simp add: deprovision_def eval_defs prog_defs status_defs path_defs ex_defs)

text \<open>
  C4, amended. What \<open>deprovision\<close> does from any state, exactly. Name the result of
  each external call it may make: stopping the daemon in the starting world gives
  \<open>(rs, ws)\<close>; \<open>w1\<close> is the world after that step; deleting the cluster in \<open>w1\<close> gives
  \<open>(rd, wd)\<close>; \<open>w2\<close> is the world after that step; removing the log file in \<open>w2\<close> gives
  \<open>(rr, wr)\<close>. Then: the daemon check is made first; the daemon is stopped exactly when
  \<open>is_daemon_running\<close> held, and an exception of that call ends \<open>deprovision\<close>;
  otherwise the cluster deletion is called exactly when the orchestrator is local,
  whatever \<open>is_provisioned\<close> says, and never when it is remote, and an exception of that
  call ends \<open>deprovision\<close>; otherwise \<open>fileio.exists\<close> is asked about the log file in
  \<open>w2\<close>, and the file is removed exactly when the answer is true. The result is that of
  the last call made, and a normal return when no call was needed.
\<close>

theorem deprovision_effects:
  assumes stop: "stop_kfp_ui_daemon du (pid_file_path hs self) w = (rs, ws)"
    and w1: "w1 = (if is_daemon_running hs self w then ws else w)"
    and del: "delete_k3d_cluster du (k3d_cluster_name self) w1 = (rd, wd)"
    and w2: "w2 = (if is_local self then wd else w1)"
    and rem: "fileio_remove hs (log_file hs self) w2 = (rr, wr)"
  shows "deprovision du hs self (w, t) =
     (if is_daemon_running hs self w \<and> isl rs
      then (Inl (projl rs),
            (ws, t @ (if sys_platform hs \<noteq> ''win32''
                      then [CheckIfDaemonIsRunning (pid_file_path hs self)] else [])
                   @ [StopKfpUiDaemon (pid_file_path hs self)]))
      else if is_local self \<and> isl rd
      then (Inl (projl rd),
            (wd, t @ (if sys_platform hs \<noteq> ''win32''
                      then [CheckIfDaemonIsRunning (pid_file_path hs self)] else [])
                   @ (if is_daemon_running hs self w
                      then [StopKfpUiDaemon (pid_file_path hs self)] else [])
                   @ [DeleteK3dCluster (k3d_cluster_name self)]))
      else (if fileio_exists hs (log_file hs self) w2 then rr else Inr (),
            (if fileio_exists hs (log_file hs self) w2 then wr else w2,
             t @ (if sys_platform hs \<noteq> ''win32''
                  then [CheckIfDaemonIsRunning (pid_file_path hs self)] else [])
               @ (if is_daemon_running hs self w
                  then [StopKfpUiDaemon (pid_file_path hs self)] else [])
               @ (if is_local self
                  then [DeleteK3dCluster (k3d_cluster_name self),
                        Log INFO ''Local kubeflow pipelines deployment deprovisioned.'']
                  else [])
               @ [FileExists (log_file hs self)]
               @ (if fileio_exists hs (log_file hs self) w2
                  then [RemoveFile (log_file hs self)] else []))))"
proof (cases "is_daemon_running hs self w")
  case True
  note d = True
  show ?thesis
  proof (cases rs)
    case (Inl e)
    with d stop show ?thesis
      by (simp add: deprovision_def prog_defs eval_is_daemon_running_run
          trace_of_is_daemon_running)
  next
    case (Inr u)
    note rs = Inr
    show ?thesis
    proof (cases "is_local self")
      case True
      note l = True
      show ?thesis
      proof (cases rd)
        case (Inl e)
        with d rs l stop w1 del show ?thesis
          by (simp add: deprovision_def prog_defs eval_is_daemon_running_run
              trace_of_is_daemon_running)
      next
        case (Inr u')
        with d rs l stop w1 del w2 rem show ?thesis
          by (simp add: deprovision_def prog_defs eval_is_daemon_running_run
              trace_of_is_daemon_running)
      qed
    next
      case False
      with d rs stop w1 w2 rem show ?thesis
        by (simp add: deprovision_def prog_defs eval_is_daemon_running_run
            trace_of_is_daemon_running)
    qed
  qed
next
  case False
  note d = False
  show ?thesis
  proof (cases "is_local self")
    case True
    note l = True
    show ?thesis
    proof (cases rd)
      case (Inl e)
      with d l w1 del show ?thesis
        by (simp add: deprovision_def prog_defs eval_is_daemon_running_run
            trace_of_is_daemon_running)
    next
      case (Inr u')
      with d l w1 del w2 rem show ?thesis
        by (simp add: deprovision_def prog_defs eval_is_daemon_running_run
            trace_of_is_daemon_running)
    qed
  next
    case False
    with d w1 w2 rem show ?thesis
      by (simp add: deprovision_def prog_defs eval_is_daemon_running_run
          trace_of_is_daemon_running)
  qed
qed

theorem deprovision_effects_witness:
  "deprovision (ex_utils None) ex_host ex_local_orchestrator
     (ex_world\<lparr>tools_installed := False\<rparr>, [])
     = (Inr (),
        (ex_world\<lparr>tools_installed := False\<rparr>,
         [CheckIfDaemonIsRunning (pid_file_path ex_host ex_local_orchestrator),
          DeleteK3dCluster (k3d_cluster_name ex_local_orchestrator),
          Log INFO ''Local kubeflow pipelines deployment deprovisioned.'',
          FileExists (log_file ex_host ex_local_orchestrator)]))
   \<and> deprovision (ex_utils None) ex_host ex_remote_orchestrator
       (ex_world\<lparr>daemon_up := True, log_present := True\<rparr>, [])
     = (Inr (),
        (ex_world,
         [CheckIfDaemonIsRunning (pid_file_path ex_host ex_remote_orchestrator),
          StopKfpUiDaemon (pid_file_path ex_host ex_remote_orchestrator),
          FileExists (log_file ex_host ex_remote_orchestrator),
          RemoveFile (log_file ex_host ex_remote_orchestrator)]))
   \<and> deprovision (ex_utils None) ex_host ex_remote_orchestrator (ex_world, [])
     = (Inr (),
        (ex_world,
         [CheckIfDaemonIsRunning (pid_file_path ex_host ex_remote_orchestrator),
          FileExists (log_file ex_host ex_remote_orchestrator)]))"
proof -
  let ?U = "ex_utils None"
  let ?w = "ex_world\<lparr>tools_installed := False\<rparr>"
  let ?v = "ex_world\<lparr>daemon_up := True, log_present := True\<rparr>"
  have platform: "sys_platform ex_host \<noteq> ''win32''" by (simp add: ex_host_def)
  have a: "deprovision ?U ex_host ex_local_orchestrator (?w, [])
     = (Inr (),
        (?w,
         [CheckIfDaemonIsRunning (pid_file_path ex_host ex_local_orchestrator),
          DeleteK3dCluster (k3d_cluster_name ex_local_orchestrator),
          Log INFO ''Local kubeflow pipelines deployment deprovisioned.'',
          FileExists (log_file ex_host ex_local_orchestrator)]))"
  proof -
    have stop: "stop_kfp_ui_daemon ?U (pid_file_path ex_host ex_local_orchestrator) ?w
                  = (Inr (), ?w\<lparr>daemon_up := False\<rparr>)"
      by (simp add: ex_utils_def)
    have nd: "\<not> is_daemon_running ex_host ex_local_orchestrator ?w"
      by (simp add: is_daemon_running_def ex_defs)
    have w1: "?w = (if is_daemon_running ex_host ex_local_orchestrator ?w
                    then ?w\<lparr>daemon_up := False\<rparr> else ?w)"
      using nd by simp
    have del: "delete_k3d_cluster ?U (k3d_cluster_name ex_local_orchestrator) ?w = (Inr (), ?w)"
      by (simp add: ex_utils_def ex_world_def)
    have w2: "?w = (if is_local ex_local_orchestrator then ?w else ?w)" by simp
    have rem: "fileio_remove ex_host (log_file ex_host ex_local_orchestrator) ?w
                 = (Inr (), ?w\<lparr>log_present := False\<rparr>)"
      by (simp add: ex_host_def)
    have ne: "\<not> fileio_exists ex_host (log_file ex_host ex_local_orchestrator) ?w"
      by (simp add: ex_host_def ex_world_def)
    from deprovision_effects [OF stop w1 del w2 rem, of "[]"] nd ne platform is_local_ex_local
    show ?thesis by simp
  qed
  have b: "deprovision ?U ex_host ex_remote_orchestrator (?v, [])
     = (Inr (),
        (ex_world,
         [CheckIfDaemonIsRunning (pid_file_path ex_host ex_remote_orchestrator),
          StopKfpUiDaemon (pid_file_path ex_host ex_remote_orchestrator),
          FileExists (log_file ex_host ex_remote_orchestrator),
          RemoveFile (log_file ex_host ex_remote_orchestrator)]))"
  proof -
    let ?v1 = "ex_world\<lparr>log_present := True\<rparr>"
    have stop: "stop_kfp_ui_daemon ?U (pid_file_path ex_host ex_remote_orchestrator) ?v
                  = (Inr (), ?v1)"
      by (simp add: ex_utils_def ex_world_def)
    have d: "is_daemon_running ex_host ex_remote_orchestrator ?v"
      by (simp add: is_daemon_running_def ex_defs)
    have w1: "?v1 = (if is_daemon_running ex_host ex_remote_orchestrator ?v then ?v1 else ?v)"
      using d by simp
    obtain rd wd where del:
      "delete_k3d_cluster ?U (k3d_cluster_name ex_remote_orchestrator) ?v1 = (rd, wd)"
      by (cases "delete_k3d_cluster ?U (k3d_cluster_name ex_remote_orchestrator) ?v1")
    have w2: "?v1 = (if is_local ex_remote_orchestrator then wd else ?v1)"
      using is_local_ex_remote by simp
    have rem: "fileio_remove ex_host (log_file ex_host ex_remote_orchestrator) ?v1
                 = (Inr (), ex_world)"
      by (simp add: ex_host_def ex_world_def)
    have ex: "fileio_exists ex_host (log_file ex_host ex_remote_orchestrator) ?v1"
      by (simp add: ex_host_def ex_world_def)
    from deprovision_effects [OF stop w1 del w2 rem, of "[]"] d ex platform is_local_ex_remote
    show ?thesis by simp
  qed
  have c: "deprovision ?U ex_host ex_remote_orchestrator (ex_world, [])
     = (Inr (),
        (ex_world,
         [CheckIfDaemonIsRunning (pid_file_path ex_host ex_remote_orchestrator),
          FileExists (log_file ex_host ex_remote_orchestrator)]))"
  proof -
    obtain rs ws where stop:
      "stop_kfp_ui_daemon ?U (pid_file_path ex_host ex_remote_orchestrator) ex_world = (rs, ws)"
      by (cases "stop_kfp_ui_daemon ?U (pid_file_path ex_host ex_remote_orchestrator) ex_world")
    have nd: "\<not> is_daemon_running ex_host ex_remote_orchestrator ex_world"
      by (simp add: is_daemon_running_def ex_defs)
    have w1: "ex_world = (if is_daemon_running ex_host ex_remote_orchestrator ex_world
                          then ws else ex_world)"
      using nd by simp
    obtain rd wd where del:
      "delete_k3d_cluster ?U (k3d_cluster_name ex_remote_orchestrator) ex_world = (rd, wd)"
      by (cases "delete_k3d_cluster ?U (k3d_cluster_name ex_remote_orchestrator) ex_world")
    have w2: "ex_world = (if is_local ex_remote_orchestrator then wd else ex_world)"
      using is_local_ex_remote by simp
    obtain rr wr where rem:
      "fileio_remove ex_host (log_file ex_host ex_remote_orchestrator) ex_world = (rr, wr)"
      by (cases "fileio_remove ex_host (log_file ex_host ex_remote_orchestrator) ex_world")
    have ne: "\<not> fileio_exists ex_host (log_file ex_host ex_remote_orchestrator) ex_world"
      by (simp add: ex_host_def ex_world_def)
    from deprovision_effects [OF stop w1 del w2 rem, of "[]"] nd ne platform is_local_ex_remote
    show ?thesis by simp
  qed
  from a b c show ?thesis by simp
qed


subsection \<open>The daemon port chosen by resume\<close>

text \<open>
  C8 as stated fails: a configured port other than the default is used even when it is
  occupied; no other port is looked for.
\<close>

theorem daemon_port_occupied_counterexample:
  "\<not> port_available ex_host 9000
        (ex_world\<lparr>cluster_present := True, cluster_up := True, busy_ports := [9000]\<rparr>)
   \<and> get_kfp_ui_daemon_port ex_host ex_port_9000_orchestrator
        (ex_world\<lparr>cluster_present := True, cluster_up := True, busy_ports := [9000]\<rparr>) = 9000
   \<and> resume (ex_utils None) ex_host ex_port_9000_orchestrator
        (ex_world\<lparr>cluster_present := True, cluster_up := True, busy_ports := [9000]\<rparr>, [])
      = (Inr (),
         (ex_world\<lparr>cluster_present := True, cluster_up := True, busy_ports := [9000],
                    daemon_up := True\<rparr>,
          [CheckPrerequisites,
           K3dClusterExists ''zenml-kubeflow-0f1e2d3c'',
           K3dClusterRunning ''zenml-kubeflow-0f1e2d3c'',
           CheckIfDaemonIsRunning (pid_file_path ex_host ex_port_9000_orchestrator),
           CheckPrerequisites,
           K3dClusterExists ''zenml-kubeflow-0f1e2d3c'',
           K3dClusterRunning ''zenml-kubeflow-0f1e2d3c'',
           CheckIfDaemonIsRunning (pid_file_path ex_host ex_port_9000_orchestrator),
           StartKfpUiDaemon (pid_file_path ex_host ex_port_9000_orchestrator)
             (log_file ex_host ex_port_9000_orchestrator) 9000 ''k3d-zenml-kubeflow-0f1e2d3c'']))"
  by (simp add: resume_def resume_cluster_def get_kfp_ui_daemon_port_def DEFAULT_KFP_UI_PORT_def
      ex_port_9000_orchestrator_def Let_def eval_defs prog_defs status_defs path_defs ex_defs)

text \<open>
  C8, amended. Let \<open>resume\<close> pass its checks (not running, provisioned) and let its
  cluster part return normally, leaving the world \<open>w1\<close> in which the daemon is not
  running. Then \<open>resume\<close> calls \<open>start_kfp_ui_daemon\<close> once, with the port of
  \<open>_get_kfp_ui_daemon_port\<close>, and ends as that call ends. The port is the configured
  one, except when the configured port is the default 8080 and 8080 is not available:
  only then it is the port \<open>find_available_port\<close> returns. Only for the default port
  is the availability asked at all.
\<close>

theorem resume_starts_daemon:
  assumes "\<not> is_running du hs self w"
    and "is_provisioned du self w"
    and "kubernetes_context self = Some ctx"
    and "resume_cluster du self ctx
           (w, t @ trace_of (eval_is_running du hs self) w
                 @ trace_of (eval_is_provisioned du self) w)
         = (Inr (), (w1, t1))"
    and "\<not> is_daemon_running hs self w1"
  shows "resume du hs self (w, t) =
           (fst (start_kfp_ui_daemon du (pid_file_path hs self) (log_file hs self)
                   (get_kfp_ui_daemon_port hs self w1) ctx w1),
            (snd (start_kfp_ui_daemon du (pid_file_path hs self) (log_file hs self)
                    (get_kfp_ui_daemon_port hs self w1) ctx w1),
             t1 @ (if sys_platform hs \<noteq> ''win32''
                   then [CheckIfDaemonIsRunning (pid_file_path hs self)] else [])
                @ (if kubeflow_pipelines_ui_port self = 8080
                   then PortAvailable 8080
                        # (if \<not> port_available hs 8080 w1 then [FindAvailablePort] else [])
                   else [])
                @ [StartKfpUiDaemon (pid_file_path hs self) (log_file hs self)
                     (get_kfp_ui_daemon_port hs self w1) ctx]))
         \<and> get_kfp_ui_daemon_port hs self w1 =
             (if kubeflow_pipelines_ui_port self = 8080 \<and> \<not> port_available hs 8080 w1
              then find_available_port hs w1
              else kubeflow_pipelines_ui_port self)"
proof
  show "get_kfp_ui_daemon_port hs self w1 =
             (if kubeflow_pipelines_ui_port self = 8080 \<and> \<not> port_available hs 8080 w1
              then find_available_port hs w1
              else kubeflow_pipelines_ui_port self)"
    by (auto simp add: get_kfp_ui_daemon_port_def DEFAULT_KFP_UI_PORT_def Let_def)
  from assms show "resume du hs self (w, t) =
           (fst (start_kfp_ui_daemon du (pid_file_path hs self) (log_file hs self)
                   (get_kfp_ui_daemon_port hs self w1) ctx w1),
            (snd (start_kfp_ui_daemon du (pid_file_path hs self) (log_file hs self)
                    (get_kfp_ui_daemon_port hs self w1) ctx w1),
             t1 @ (if sys_platform hs \<noteq> ''win32''
                   then [CheckIfDaemonIsRunning (pid_file_path hs self)] else [])
                @ (if kubeflow_pipelines_ui_port self = 8080
                   then PortAvailable 8080
                        # (if \<not> port_available hs 8080 w1 then [FindAvailablePort] else [])
                   else [])
                @ [StartKfpUiDaemon (pid_file_path hs self) (log_file hs self)
                     (get_kfp_ui_daemon_port hs self w1) ctx]))"
    by (simp add: resume_def ret_def raise_def bnd_def call_def if_then_def
        eval_is_running_run eval_is_provisioned_run eval_is_daemon_running_run
        eval_get_kfp_ui_daemon_port_run trace_of_is_daemon_running
        trace_of_get_kfp_ui_daemon_port split: prod.splits)
qed

theorem resume_starts_daemon_witness:
  "resume (ex_utils None) ex_host ex_local_orchestrator
     (ex_world\<lparr>cluster_present := True, busy_ports := [8080]\<rparr>, [])
   = (Inr (),
      (ex_world\<lparr>cluster_present := True, busy_ports := [8080], cluster_up := True,
                 daemon_up := True\<rparr>,
       [CheckPrerequisites,
        K3dClusterExists (k3d_cluster_name ex_local_orchestrator),
        K3dClusterRunning (k3d_cluster_name ex_local_orchestrator),
        CheckPrerequisites,
        K3dClusterExists (k3d_cluster_name ex_local_orchestrator),
        K3dClusterRunning (k3d_cluster_name ex_local_orchestrator),
        StartK3dCluster (k3d_cluster_name ex_local_orchestrator),
        WaitUntilKubeflowPipelinesReady ''k3d-zenml-kubeflow-0f1e2d3c'',
        CheckIfDaemonIsRunning (pid_file_path ex_host ex_local_orchestrator),
        PortAvailable 8080,
        FindAvailablePort,
        StartKfpUiDaemon (pid_file_path ex_host ex_local_orchestrator)
          (log_file ex_host ex_local_orchestrator) 8081 ''k3d-zenml-kubeflow-0f1e2d3c'']))"
proof -
  let ?w = "ex_world\<lparr>cluster_present := True, busy_ports := [8080]\<rparr>"
  let ?w1 = "ex_world\<lparr>cluster_present := True, busy_ports := [8080], cluster_up := True\<rparr>"
  have 1: "\<not> is_running (ex_utils None) ex_host ex_local_orchestrator ?w"
    by (simp add: status_defs path_defs ex_defs)
  have 2: "is_provisioned (ex_utils None) ex_local_orchestrator ?w"
    by (simp add: status_defs path_defs ex_defs)
  have 3: "kubernetes_context ex_local_orchestrator = Some ''k3d-zenml-kubeflow-0f1e2d3c''"
    by (simp add: ex_local_orchestrator_def)
  have tr: "trace_of (eval_is_running (ex_utils None) ex_host ex_local_orchestrator) ?w
             = [CheckPrerequisites,
                K3dClusterExists (k3d_cluster_name ex_local_orchestrator),
                K3dClusterRunning (k3d_cluster_name ex_local_orchestrator)]"
    "trace_of (eval_is_provisioned (ex_utils None) ex_local_orchestrator) ?w
             = [CheckPrerequisites,
                K3dClusterExists (k3d_cluster_name ex_local_orchestrator)]"
    by (simp_all add: trace_of_def eval_defs prog_defs status_defs path_defs ex_defs)
  have 4: "resume_cluster (ex_utils None) ex_local_orchestrator ''k3d-zenml-kubeflow-0f1e2d3c''
             (?w, [] @ trace_of (eval_is_running (ex_utils None) ex_host ex_local_orchestrator) ?w
                     @ trace_of (eval_is_provisioned (ex_utils None) ex_local_orchestrator) ?w)
           = (Inr (), (?w1, [CheckPrerequisites,
                             K3dClusterExists (k3d_cluster_name ex_local_orchestrator),
                             K3dClusterRunning (k3d_cluster_name ex_local_orchestrator),
                             CheckPrerequisites,
                             K3dClusterExists (k3d_cluster_name ex_local_orchestrator),
                             K3dClusterRunning (k3d_cluster_name ex_local_orchestrator),
                             StartK3dCluster (k3d_cluster_name ex_local_orchestrator),
                             WaitUntilKubeflowPipelinesReady ''k3d-zenml-kubeflow-0f1e2d3c'']))"
    unfolding tr
    by (simp add: resume_cluster_def eval_defs prog_defs status_defs path_defs ex_defs)
  have 5: "\<not> is_daemon_running ex_host ex_local_orchestrator ?w1"
    by (simp add: is_daemon_running_def ex_defs)
  have port: "kubeflow_pipelines_ui_port ex_local_orchestrator = 8080"
    "\<not> port_available ex_host 8080 ?w1" "find_available_port ex_host ?w1 = 8081"
    "sys_platform ex_host \<noteq> ''win32''"
    by (simp_all add: ex_defs)
  from resume_starts_daemon [OF 1 2 3 4 5] port show ?thesis
    by (simp add: ex_utils_def ex_world_def)
qed

subsection \<open>Failures while submitting a run\<close>

lemma ex_client_submit:
  "submit_run (ex_client e) ex_remote_orchestrator ''p'' ''p.yaml'' ex_one_off True ((), [])
   = (Inl e, ((),
        [Log INFO (''Running in kubernetes context '' @ [CHR 0x27] @ ''gke-prod'' @ [CHR 0x27] @ ''.''),
         KfpClient (Some ''gke-prod''),
         Log INFO ''No schedule detected. Creating a one-off pipeline run..'',
         CreateRunFromPipelinePackage ''p.yaml'' (Some ''run-1'') True]))"
  by (simp add: submit_run_def ex_client_def ex_one_off_def ex_remote_orchestrator_def
      ex_local_orchestrator_def str_opt_def prog_defs)

text \<open>
  C9 as stated fails: an \<open>ApiException\<close> raised by the creation of a one-off run is not
  caught; the routine raises it to its caller.
\<close>

theorem upload_and_run_pipeline_reraises_counterexample:
  "fst (create_run_from_pipeline_package (ex_client (Exc ApiException ''(500) Internal Server Error''))
          ''p.yaml'' (Some ''run-1'') True ())
     = Inl (Exc ApiException ''(500) Internal Server Error'')
   \<and> fst (upload_and_run_pipeline (ex_client (Exc ApiException ''(500) Internal Server Error''))
            ex_remote_orchestrator ''p'' ''p.yaml'' ex_one_off True ((), []))
     = Inl (Exc ApiException ''(500) Internal Server Error'')"
proof
  show "fst (create_run_from_pipeline_package
               (ex_client (Exc ApiException ''(500) Internal Server Error''))
               ''p.yaml'' (Some ''run-1'') True ())
        = Inl (Exc ApiException ''(500) Internal Server Error'')"
    by (simp add: ex_client_def)
  show "fst (upload_and_run_pipeline (ex_client (Exc ApiException ''(500) Internal Server Error''))
               ex_remote_orchestrator ''p'' ''p.yaml'' ex_one_off True ((), []))
        = Inl (Exc ApiException ''(500) Internal Server Error'')"
    by (simp add: upload_and_run_pipeline_def ex_client_submit try_except_def isinstance_def)
qed

text \<open>
  C9, amended. An exception that leaves the \<open>try\<close> body of the routine is caught
  exactly when it is a urllib3 \<open>HTTPError\<close>: the routine then logs a warning and
  returns normally; every other exception is raised to the caller as it is. Among the
  classes modelled, the instances of \<open>HTTPError\<close> are \<open>HTTPError\<close>, \<open>MaxRetryError\<close>
  and \<open>LocationValueError\<close>. An exception raised by the construction of the client,
  by the creation of a one-off run, by the wait for its completion, by the creation of
  the experiment or by the creation of a recurring run leaves the body. An exception
  raised by the lookup of the experiment leaves the body unless it is a \<open>ValueError\<close>
  or an \<open>ApiException\<close>: those, \<open>LocationValueError\<close> among them although it is an
  \<open>HTTPError\<close>, are taken by the inner handler, which creates the experiment and goes
  on; no warning is logged for them.
\<close>

theorem upload_and_run_pipeline_catches:
  "(submit_run client self pipeline_name pipeline_file_path runtime_config enable_cache (w, t)
       = (Inl e, (w', t'))
    \<longrightarrow> upload_and_run_pipeline client self pipeline_name pipeline_file_path runtime_config
          enable_cache (w, t)
        = (if isinstance e HTTPError
           then (Inr (),
                 (w', t' @ [Log WARNING
                              (''Failed to upload Kubeflow pipeline: '' @ exc_message e
                               @ ''. Please make sure your kube config is configured and the ''
                               @ ''current context is set correctly.'')]))
           else (Inl e, (w', t'))))
   \<and> (isinstance e HTTPError
        \<longleftrightarrow> exc_class_of e = HTTPError \<or> exc_class_of e = MaxRetryError
            \<or> exc_class_of e = LocationValueError)
   \<and> (kfp_Client client (kubernetes_context self) w = (Inl e, w1)
    \<longrightarrow> submit_run client self pipeline_name pipeline_file_path runtime_config enable_cache
          (w, t)
        = (Inl e,
           (w1, t @ [Log INFO (''Running in kubernetes context '' @ [CHR 0x27]
                               @ str_opt (kubernetes_context self) @ [CHR 0x27] @ ''.''),
                     KfpClient (kubernetes_context self)])))
   \<and> (kfp_Client client (kubernetes_context self) w = (Inr (), w1)
      \<and> rc_schedule runtime_config = None
      \<and> create_run_from_pipeline_package client pipeline_file_path (run_name runtime_config)
           enable_cache w1 = (Inl e, w2)
    \<longrightarrow> submit_run client self pipeline_name pipeline_file_path runtime_config enable_cache
          (w, t)
        = (Inl e,
           (w2, t @ [Log INFO (''Running in kubernetes context '' @ [CHR 0x27]
                               @ str_opt (kubernetes_context self) @ [CHR 0x27] @ ''.''),
                     KfpClient (kubernetes_context self),
                     Log INFO ''No schedule detected. Creating a one-off pipeline run..'',
                     CreateRunFromPipelinePackage pipeline_file_path (run_name runtime_config)
                       enable_cache])))
   \<and> (kfp_Client client (kubernetes_context self) w = (Inr (), w1)
      \<and> rc_schedule runtime_config = None
      \<and> create_run_from_pipeline_package client pipeline_file_path (run_name runtime_config)
           enable_cache w1 = (Inr run_id, w2)
      \<and> synchronous self
      \<and> wait_for_run_completion client run_id 1200 w2 = (Inl e, w3)
    \<longrightarrow> submit_run client self pipeline_name pipeline_file_path runtime_config enable_cache
          (w, t)
        = (Inl e,
           (w3, t @ [Log INFO (''Running in kubernetes context '' @ [CHR 0x27]
                               @ str_opt (kubernetes_context self) @ [CHR 0x27] @ ''.''),
                     KfpClient (kubernetes_context self),
                     Log INFO ''No schedule detected. Creating a one-off pipeline run..'',
                     CreateRunFromPipelinePackage pipeline_file_path (run_name runtime_config)
                       enable_cache,
                     Log INFO (''Started one-off pipeline run with ID '' @ [CHR 0x27] @ run_id
                               @ [CHR 0x27] @ ''.''),
                     WaitForRunCompletion run_id 1200])))
   \<and> (kfp_Client client (kubernetes_context self) w = (Inr (), w1)
      \<and> rc_schedule runtime_config = Some sched
      \<and> get_experiment client pipeline_name w1 = (Inl e, w2)
      \<and> \<not> isinstance e ValueError \<and> \<not> isinstance e ApiException
    \<longrightarrow> submit_run client self pipeline_name pipeline_file_path runtime_config enable_cache
          (w, t)
        = (Inl e,
           (w2, t @ [Log INFO (''Running in kubernetes context '' @ [CHR 0x27]
                               @ str_opt (kubernetes_context self) @ [CHR 0x27] @ ''.''),
                     KfpClient (kubernetes_context self),
                     GetExperiment pipeline_name])))
   \<and> (kfp_Client client (kubernetes_context self) w = (Inr (), w1)
      \<and> rc_schedule runtime_config = Some sched
      \<and> get_experiment client pipeline_name w1 = (Inl handled, w2)
      \<and> (isinstance handled ValueError \<or> isinstance handled ApiException)
      \<and> create_experiment client pipeline_name w2 = (Inl e, w3)
    \<longrightarrow> submit_run client self pipeline_name pipeline_file_path runtime_config enable_cache
          (w, t)
        = (Inl e,
           (w3, t @ [Log INFO (''Running in kubernetes context '' @ [CHR 0x27]
                               @ str_opt (kubernetes_context self) @ [CHR 0x27] @ ''.''),
                     KfpClient (kubernetes_context self),
                     GetExperiment pipeline_name,
                     CreateExperiment pipeline_name])))
   \<and> (kfp_Client client (kubernetes_context self) w = (Inr (), w1)
      \<and> rc_schedule runtime_config = Some sched
      \<and> get_experiment client pipeline_name w1 = (Inr exp_id, w2)
      \<and> create_recurring_run client
           \<lparr>experiment_id = exp_id, job_name = run_name runtime_config,
            pipeline_package_path = pipeline_file_path, enable_caching = enable_cache,
            start_time = utc_start_time sched, end_time = utc_end_time sched,
            interval_second = sched_interval_second sched,
            no_catchup = (\<not> catchup sched)\<rparr> w2 = (Inl e, w3)
    \<longrightarrow> submit_run client self pipeline_name pipeline_file_path runtime_config enable_cache
          (w, t)
        = (Inl e,
           (w3, t @ [Log INFO (''Running in kubernetes context '' @ [CHR 0x27]
                               @ str_opt (kubernetes_context self) @ [CHR 0x27] @ ''.''),
                     KfpClient (kubernetes_context self),
                     GetExperiment pipeline_name,
                     Log INFO (''A recurring run has already been created with this ''
                               @ ''pipeline. Creating new recurring run now..''),
                     Log INFO (''You can see all recurring runs under the '' @ [CHR 0x27]
                               @ pipeline_name @ [CHR 0x27] @ '' experiment.'' @ [CHR 0x27]),
                     CreateRecurringRun
                       \<lparr>experiment_id = exp_id, job_name = run_name runtime_config,
                        pipeline_package_path = pipeline_file_path,
                        enable_caching = enable_cache,
                        start_time = utc_start_time sched, end_time = utc_end_time sched,
                        interval_second = sched_interval_second sched,
                        no_catchup = (\<not> catchup sched)\<rparr>])))
   \<and> (kfp_Client client (kubernetes_context self) w = (Inr (), w1)
      \<and> rc_schedule runtime_config = Some sched
      \<and> get_experiment client pipeline_name w1 = (Inl handled, w2)
      \<and> (isinstance handled ValueError \<or> isinstance handled ApiException)
      \<and> create_experiment client pipeline_name w2 = (Inr exp_id, w3)
      \<and> create_recurring_run client
           \<lparr>experiment_id = exp_id, job_name = run_name runtime_config,
            pipeline_package_path = pipeline_file_path, enable_caching = enable_cache,
            start_time = utc_start_time sched, end_time = utc_end_time sched,
            interval_second = sched_interval_second sched,
            no_catchup = (\<not> catchup sched)\<rparr> w3 = (Inr result_id, w4)
    \<longrightarrow> upload_and_run_pipeline client self pipeline_name pipeline_file_path runtime_config
          enable_cache (w, t)
        = (Inr (),
           (w4, t @ [Log INFO (''Running in kubernetes context '' @ [CHR 0x27]
                               @ str_opt (kubernetes_context self) @ [CHR 0x27] @ ''.''),
                     KfpClient (kubernetes_context self),
                     GetExperiment pipeline_name,
                     CreateExperiment pipeline_name,
                     Log INFO (''Creating a new recurring run for pipeline '' @ [CHR 0x27]
                               @ pipeline_name @ [CHR 0x27] @ ''.. ''),
                     Log INFO (''You can see all recurring runs under the '' @ [CHR 0x27]
                               @ pipeline_name @ [CHR 0x27] @ '' experiment.'' @ [CHR 0x27]),
                     CreateRecurringRun
                       \<lparr>experiment_id = exp_id, job_name = run_name runtime_config,
                        pipeline_package_path = pipeline_file_path,
                        enable_caching = enable_cache,
                        start_time = utc_start_time sched, end_time = utc_end_time sched,
                        interval_second = sched_interval_second sched,
                        no_catchup = (\<not> catchup sched)\<rparr>,
                     Log INFO (''Started recurring run with ID '' @ [CHR 0x27] @ result_id
                               @ [CHR 0x27] @ ''.'')])))"
proof (intro conjI)
  show "submit_run client self pipeline_name pipeline_file_path runtime_config enable_cache (w, t)
       = (Inl e, (w', t'))
    \<longrightarrow> upload_and_run_pipeline client self pipeline_name pipeline_file_path runtime_config
          enable_cache (w, t)
        = (if isinstance e HTTPError
           then (Inr (),
                 (w', t' @ [Log WARNING
                              (''Failed to upload Kubeflow pipeline: '' @ exc_message e
                               @ ''. Please make sure your kube config is configured and the ''
                               @ ''current context is set correctly.'')]))
           else (Inl e, (w', t')))"
    by (simp add: upload_and_run_pipeline_def upload_failure_warning_def try_except_def
        logger_def emit_def)
  show "isinstance e HTTPError
        \<longleftrightarrow> exc_class_of e = HTTPError \<or> exc_class_of e = MaxRetryError
            \<or> exc_class_of e = LocationValueError"
    by (cases "exc_class_of e") (simp_all add: isinstance_def)
qed (simp_all add: upload_and_run_pipeline_def submit_run_def Let_def prog_defs)

theorem upload_and_run_pipeline_catches_witness:
  "upload_and_run_pipeline (ex_client (Exc MaxRetryError ''Max retries exceeded''))
     ex_remote_orchestrator ''p'' ''p.yaml'' ex_one_off True ((), [])
   = (Inr (), ((),
        [Log INFO (''Running in kubernetes context '' @ [CHR 0x27] @ ''gke-prod'' @ [CHR 0x27] @ ''.''),
         KfpClient (Some ''gke-prod''),
         Log INFO ''No schedule detected. Creating a one-off pipeline run..'',
         CreateRunFromPipelinePackage ''p.yaml'' (Some ''run-1'') True,
         Log WARNING
           (''Failed to upload Kubeflow pipeline: Max retries exceeded''
            @ ''. Please make sure your kube config is configured and the ''
            @ ''current context is set correctly.'')]))
   \<and> isinstance (Exc LocationValueError ''No host specified.'') HTTPError
   \<and> upload_and_run_pipeline (ex_lookup_client (Exc LocationValueError ''No host specified.''))
       ex_remote_orchestrator ''p'' ''p.yaml'' ex_recurring True ((), [])
   = (Inr (), ((),
        [Log INFO (''Running in kubernetes context '' @ [CHR 0x27] @ ''gke-prod'' @ [CHR 0x27] @ ''.''),
         KfpClient (Some ''gke-prod''),
         GetExperiment ''p'',
         CreateExperiment ''p'',
         Log INFO (''Creating a new recurring run for pipeline '' @ [CHR 0x27] @ ''p''
                   @ [CHR 0x27] @ ''.. ''),
         Log INFO (''You can see all recurring runs under the '' @ [CHR 0x27] @ ''p''
                   @ [CHR 0x27] @ '' experiment.'' @ [CHR 0x27]),
         CreateRecurringRun
           \<lparr>experiment_id = ''experiment-1'', job_name = Some ''run-1'',
            pipeline_package_path = ''p.yaml'', enable_caching = True,
            start_time = Some ''2022-05-01T00:00:00Z'', end_time = None,
            interval_second = 3600, no_catchup = True\<rparr>,
         Log INFO (''Started recurring run with ID '' @ [CHR 0x27] @ ''job-1''
                   @ [CHR 0x27] @ ''.'')]))"
proof -
  have ctx: "kubernetes_context ex_remote_orchestrator = Some ''gke-prod''"
    by (simp add: ex_remote_orchestrator_def ex_local_orchestrator_def)
  have a: "upload_and_run_pipeline (ex_client (Exc MaxRetryError ''Max retries exceeded''))
     ex_remote_orchestrator ''p'' ''p.yaml'' ex_one_off True ((), [])
   = (Inr (), ((),
        [Log INFO (''Running in kubernetes context '' @ [CHR 0x27] @ ''gke-prod'' @ [CHR 0x27] @ ''.''),
         KfpClient (Some ''gke-prod''),
         Log INFO ''No schedule detected. Creating a one-off pipeline run..'',
         CreateRunFromPipelinePackage ''p.yaml'' (Some ''run-1'') True,
         Log WARNING
           (''Failed to upload Kubeflow pipeline: Max retries exceeded''
            @ ''. Please make sure your kube config is configured and the ''
            @ ''current context is set correctly.'')]))"
    using upload_and_run_pipeline_catches
      [where client = "ex_client (Exc MaxRetryError ''Max retries exceeded'')"
         and self = ex_remote_orchestrator and pipeline_name = "''p''"
         and pipeline_file_path = "''p.yaml''" and runtime_config = ex_one_off
         and enable_cache = True and w = "()" and t = "[]"
         and e = "Exc MaxRetryError ''Max retries exceeded''" and w' = "()"
         and t' = "[Log INFO (''Running in kubernetes context '' @ [CHR 0x27] @ ''gke-prod''
                              @ [CHR 0x27] @ ''.''),
                    KfpClient (Some ''gke-prod''),
                    Log INFO ''No schedule detected. Creating a one-off pipeline run..'',
                    CreateRunFromPipelinePackage ''p.yaml'' (Some ''run-1'') True]"]
      ex_client_submit [of "Exc MaxRetryError ''Max retries exceeded''"]
    by (simp add: isinstance_def)
  have b: "isinstance (Exc LocationValueError ''No host specified.'') HTTPError"
    "isinstance (Exc LocationValueError ''No host specified.'') ValueError"
    by (simp_all add: isinstance_def)
  have c: "upload_and_run_pipeline (ex_lookup_client (Exc LocationValueError ''No host specified.''))
       ex_remote_orchestrator ''p'' ''p.yaml'' ex_recurring True ((), [])
   = (Inr (), ((),
        [Log INFO (''Running in kubernetes context '' @ [CHR 0x27] @ ''gke-prod'' @ [CHR 0x27] @ ''.''),
         KfpClient (Some ''gke-prod''),
         GetExperiment ''p'',
         CreateExperiment ''p'',
         Log INFO (''Creating a new recurring run for pipeline '' @ [CHR 0x27] @ ''p''
                   @ [CHR 0x27] @ ''.. ''),
         Log INFO (''You can see all recurring runs under the '' @ [CHR 0x27] @ ''p''
                   @ [CHR 0x27] @ '' experiment.'' @ [CHR 0x27]),
         CreateRecurringRun
           \<lparr>experiment_id = ''experiment-1'', job_name = Some ''run-1'',
            pipeline_package_path = ''p.yaml'', enable_caching = True,
            start_time = Some ''2022-05-01T00:00:00Z'', end_time = None,
            interval_second = 3600, no_catchup = True\<rparr>,
         Log INFO (''Started recurring run with ID '' @ [CHR 0x27] @ ''job-1''
                   @ [CHR 0x27] @ ''.'')]))"
    using upload_and_run_pipeline_catches
      [where client = "ex_lookup_client (Exc LocationValueError ''No host specified.'')"
         and self = ex_remote_orchestrator and pipeline_name = "''p''"
         and pipeline_file_path = "''p.yaml''" and runtime_config = ex_recurring
         and enable_cache = True and w = "()" and t = "[]" and ?w1.0 = "()"
         and sched = ex_schedule
         and handled = "Exc LocationValueError ''No host specified.''" and ?w2.0 = "()"
         and exp_id = "''experiment-1''" and ?w3.0 = "()" and result_id = "''job-1''"
         and ?w4.0 = "()"]
      b ctx
    by (simp add: ex_lookup_client_def ex_recurring_def ex_schedule_def str_opt_def)
  from a b(1) c show ?thesis by simp
qed

subsection \<open>Source references that are not structured\<close>

lemmas key_defs =
  PipelineConfigurationKeys_NAME_def PipelineConfigurationKeys_STEPS_def
  StepConfigurationKeys_SOURCE_def StepConfigurationKeys_MATERIALIZERS_def
  SourceConfigurationKeys_NAME_def SourceConfigurationKeys_FILE_def
  pipeline_required_keys_def step_required_keys_def

lemmas resolver_defs =
  run_pipeline_def resolve_step_def resolve_materializers_def get_module_def
  get_module_attribute_def key_check_def missing_keys_def yaml_keys_def subscript_def
  dict_items_def dict_get_def

text \<open>
  C5. For every bare string, \<open>_get_module\<close> raises the configuration error whose
  message, given here in full, tells the caller to pass a dictionary that has a \<open>name\<close>
  and, for an entity outside the main module, a \<open>file\<close>, and shows the expected form;
  it imports nothing and resolves nothing. For every value that is neither a string nor
  a dictionary it raises the configuration error whose message gives the value and the
  name of its type.
\<close>

theorem get_module_rejects:
  "get_module env module (YStr s) st
     = (Inl (Exc PipelineConfigurationError
               (''As of ZenML version 0.8.0 `str` entries are no longer supported ''
                @ ''to define steps or materializers. Instead you will now need to ''
                @ ''pass a dictionary. This dictionary **has to** contain a ''
                @ ''`name` which refers to the function/''
                @ ''class name. If this entity is defined outside the main module,''
                @ ''you will need to additionally supply a ''
                @ ''file with the relative forward-slash-''
                @ ''separated path to the file. '' @ [CHR 0x0A]
                @ ''You tried to pass in `'' @ s @ ''` - however you should have ''
                @ ''specified the name (and file) like this:''
                @ '' '' @ textwrap_dedent env
                            ([CHR 0x0A] @ ''        name: '' @ s
                             @ [CHR 0x0A] @ ''        file: optional/filepath.py''
                             @ [CHR 0x0A] @ ''        ''))),
        st)
   \<and> (\<not> is_YStr v \<and> \<not> is_YDict v \<longrightarrow>
        get_module env module v st
          = (Inl (Exc PipelineConfigurationError
                    (''Only `str` and `dict` values are allowed for ''
                     @ [CHR 0x27] @ ''step_source'' @ [CHR 0x27]
                     @ '' attribute of a step configuration. You ''
                     @ ''tried to pass in `'' @ py_str env v @ ''` (type: ''
                     @ ''`'' @ type_name v @ ''`).'')),
             st))"
  by (cases v)
     (simp_all add: get_module_def raise_def str_entry_message_def
        structured_form_instruction_def correct_input_def type_mismatch_message_def
        format_value_def SourceConfigurationKeys_NAME_def SourceConfigurationKeys_FILE_def)

theorem get_module_rejects_witness:
  "get_module (ex_python YNone) ex_module (YStr ''Step1'') ((), [])
     = (Inl (Exc PipelineConfigurationError
               (''As of ZenML version 0.8.0 `str` entries are no longer supported ''
                @ ''to define steps or materializers. Instead you will now need to ''
                @ ''pass a dictionary. This dictionary **has to** contain a ''
                @ ''`name` which refers to the function/''
                @ ''class name. If this entity is defined outside the main module,''
                @ ''you will need to additionally supply a ''
                @ ''file with the relative forward-slash-''
                @ ''separated path to the file. '' @ [CHR 0x0A]
                @ ''You tried to pass in `Step1` - however you should have ''
                @ ''specified the name (and file) like this: ''
                @ [CHR 0x0A] @ ''        name: Step1''
                @ [CHR 0x0A] @ ''        file: optional/filepath.py''
                @ [CHR 0x0A] @ ''        '')),
        ((), []))
   \<and> get_module (ex_python YNone) ex_module (YInt 5) ((), [])
     = (Inl (Exc PipelineConfigurationError
               (''Only `str` and `dict` values are allowed for '' @ [CHR 0x27] @ ''step_source''
                @ [CHR 0x27] @ '' attribute of a step configuration. You tried to pass in ''
                @ ''`<value>` (type: `int`).'')),
        ((), []))
   \<and> get_module (ex_python YNone) ex_module YNone ((), [])
     = (Inl (Exc PipelineConfigurationError
               (''Only `str` and `dict` values are allowed for '' @ [CHR 0x27] @ ''step_source''
                @ [CHR 0x27] @ '' attribute of a step configuration. You tried to pass in ''
                @ ''`<value>` (type: `NoneType`).'')),
        ((), []))
   \<and> get_module (ex_python YNone) ex_module (YList [YStr ''Step1'']) ((), [])
     = (Inl (Exc PipelineConfigurationError
               (''Only `str` and `dict` values are allowed for '' @ [CHR 0x27] @ ''step_source''
                @ [CHR 0x27] @ '' attribute of a step configuration. You tried to pass in ''
                @ ''`<value>` (type: `list`).'')),
        ((), []))"
  using get_module_rejects [of "ex_python YNone" ex_module "''Step1''" "((), [])" "YInt 5"]
    get_module_rejects [of "ex_python YNone" ex_module "''Step1''" "((), [])" YNone]
    get_module_rejects [of "ex_python YNone" ex_module "''Step1''" "((), [])"
      "YList [YStr ''Step1'']"]
  by (simp add: ex_python_def)

subsection \<open>Key checks\<close>

lemma resolve_steps_append:
  "resolve_steps env module (xs @ ys) steps st =
     (case resolve_steps env module xs steps st of
        (Inl e, st') \<Rightarrow> (Inl e, st')
      | (Inr steps', st') \<Rightarrow> resolve_steps env module ys steps' st')"
proof (induction xs arbitrary: steps st)
  case Nil
  show ?case by (simp add: ret_def)
next
  case (Cons x xs)
  obtain step_name step_config where x: "x = (step_name, step_config)" by (cases x)
  obtain r st1 where step: "resolve_step env module step_config st = (r, st1)"
    by (cases "resolve_step env module step_config st")
  show ?case
    using Cons.IH step by (cases r) (simp_all add: x bnd_def)
qed

lemma resolve_step_without_source:
  "YStr ''source'' \<notin> fst ` set skvs \<Longrightarrow>
     resolve_step env module (YDict skvs) st =
       (Inl (Exc PipelineConfigurationError ''Missing key(s): source''), st)"
  by (simp add: resolve_step_def key_check_def missing_keys_def missing_keys_message_def
      yaml_keys_def key_defs bnd_def lift_def)

lemma key_present: "map_of kvs k = Some v \<Longrightarrow> k \<in> fst ` set kvs"
  using map_of_eq_None_iff [of kvs k] by simp

lemma top_level_keys_present:
  "YStr ''name'' \<in> fst ` set kvs \<Longrightarrow> YStr ''steps'' \<in> fst ` set kvs \<Longrightarrow>
     key_check pipeline_required_keys (YDict kvs) = Inr ()"
  by (simp add: key_check_def missing_keys_def yaml_keys_def key_defs)

lemma run_pipeline_loop:
  assumes "import_python_file env (YStr python_file) w = (Inr module, w1)"
    and "read_yaml env config_path w1 = (Inr (YDict kvs), w2)"
    and "map_of kvs (YStr ''name'') = Some (YStr pipeline_name)"
    and "map_of (module_attrs module) pipeline_name = Some pipeline_class"
    and "map_of kvs (YStr ''steps'') = Some (YDict items)"
    and "resolve_steps env module items []
           (w2, t @ [ImportPythonFile (YStr python_file), ReadYaml config_path]) = (Inl e, st')"
  shows "run_pipeline env python_file config_path (w, t) = (Inl e, st')"
proof -
  from assms have "key_check pipeline_required_keys (YDict kvs) = Inr ()"
    by (intro top_level_keys_present key_present) simp_all
  with assms show ?thesis
    by (simp add: run_pipeline_def subscript_def dict_items_def get_module_attribute_def
        PipelineConfigurationKeys_NAME_def PipelineConfigurationKeys_STEPS_def
        bnd_def call_def lift_def)
qed

lemma ex_first_step:
  "resolve_steps (ex_python d) ex_module
     [(YStr ''s1'', YDict [(YStr ''source'', ex_source ''Step1'')])] [] ((), t)
   = (Inr [(YStr ''s1'', ''Step1()'')], ((), t @ [Instantiate ''Step1'']))"
  by (simp add: resolver_defs key_defs prog_defs ex_python_def ex_module_def ex_source_def)

lemma ex_first_step_bare:
  "resolve_steps (ex_python d) ex_module
     [(YStr ''s1'', YDict [(YStr ''source'', YStr ''Step1'')])] [] ((), t)
   = (Inl (Exc PipelineConfigurationError (str_entry_message (ex_python d) ''Step1'')), ((), t))"
  by (simp add: resolver_defs key_defs prog_defs)

text \<open>
  C6 as stated fails: the keys of a step are checked inside the loop, just before that
  step is resolved. In a document whose second step lacks \<open>source\<close>, the first step is
  resolved and instantiated before the error for the second one is raised.
\<close>

theorem step_resolved_before_later_key_check_counterexample:
  "run_pipeline (ex_python ex_document_second_step_incomplete) ''run.py'' ''config.yaml'' ((), [])
     = (Inl (Exc PipelineConfigurationError ''Missing key(s): source''),
        ((), [ImportPythonFile (YStr ''run.py''), ReadYaml ''config.yaml'',
              Instantiate ''Step1'']))"
  by (simp add: resolver_defs key_defs prog_defs missing_keys_message_def ex_python_def
      ex_module_def ex_source_def ex_document_second_step_incomplete_def)

text \<open>
  C6, amended, for a document that is a mapping, once the Python file is imported and
  the document read. A document lacking a required top-level key fails with the
  configuration error naming exactly the missing keys, before anything is resolved. When
  the top-level keys are there and the pipeline symbol is found in the module, the keys
  of a step are checked when the loop reaches it: if the steps before it resolve, a step
  lacking \<open>source\<close> fails with the configuration error naming that key, the earlier
  steps having been resolved and instantiated; if an earlier step fails, its error is
  raised instead. When the pipeline symbol is not found, that error is raised before any
  step is looked at, whatever keys the steps lack.
\<close>

theorem key_checks:
  "(import_python_file env (YStr python_file) w = (Inr module, w1)
      \<and> read_yaml env config_path w1 = (Inr (YDict kvs), w2)
      \<and> filter (\<lambda>k. YStr k \<notin> fst ` set kvs) [''name'', ''steps''] \<noteq> []
    \<longrightarrow> run_pipeline env python_file config_path (w, t)
          = (Inl (Exc PipelineConfigurationError
                    (''Missing key(s): ''
                     @ str_join '', ''
                         (filter (\<lambda>k. YStr k \<notin> fst ` set kvs) [''name'', ''steps'']))),
             (w2, t @ [ImportPythonFile (YStr python_file), ReadYaml config_path])))
   \<and> (import_python_file env (YStr python_file) w = (Inr module, w1)
      \<and> read_yaml env config_path w1 = (Inr (YDict kvs), w2)
      \<and> map_of kvs (YStr ''name'') = Some (YStr pipeline_name)
      \<and> map_of (module_attrs module) pipeline_name = Some pipeline_class
      \<and> map_of kvs (YStr ''steps'') = Some (YDict (pre @ (step_name, YDict skvs) # post))
      \<and> resolve_steps env module pre []
           (w2, t @ [ImportPythonFile (YStr python_file), ReadYaml config_path])
         = (Inr steps', st')
      \<and> YStr ''source'' \<notin> fst ` set skvs
    \<longrightarrow> run_pipeline env python_file config_path (w, t)
          = (Inl (Exc PipelineConfigurationError ''Missing key(s): source''), st'))
   \<and> (import_python_file env (YStr python_file) w = (Inr module, w1)
      \<and> read_yaml env config_path w1 = (Inr (YDict kvs), w2)
      \<and> map_of kvs (YStr ''name'') = Some (YStr pipeline_name)
      \<and> map_of (module_attrs module) pipeline_name = Some pipeline_class
      \<and> map_of kvs (YStr ''steps'') = Some (YDict (pre @ (step_name, YDict skvs) # post))
      \<and> resolve_steps env module pre []
           (w2, t @ [ImportPythonFile (YStr python_file), ReadYaml config_path])
         = (Inl e, st')
    \<longrightarrow> run_pipeline env python_file config_path (w, t) = (Inl e, st'))
   \<and> (import_python_file env (YStr python_file) w = (Inr module, w1)
      \<and> read_yaml env config_path w1 = (Inr (YDict kvs), w2)
      \<and> map_of kvs (YStr ''name'') = Some (YStr pipeline_name)
      \<and> YStr ''steps'' \<in> fst ` set kvs
      \<and> map_of (module_attrs module) pipeline_name = None
    \<longrightarrow> run_pipeline env python_file config_path (w, t)
          = (Inl (Exc PipelineConfigurationError
                    (''Unable to load '' @ [CHR 0x27] @ pipeline_name @ [CHR 0x27]
                     @ '' from file '' @ [CHR 0x27] @ module_file module @ [CHR 0x27])),
             (w2, t @ [ImportPythonFile (YStr python_file), ReadYaml config_path])))"
proof (intro conjI impI)
  assume "import_python_file env (YStr python_file) w = (Inr module, w1)
      \<and> read_yaml env config_path w1 = (Inr (YDict kvs), w2)
      \<and> filter (\<lambda>k. YStr k \<notin> fst ` set kvs) [''name'', ''steps''] \<noteq> []"
  then show "run_pipeline env python_file config_path (w, t)
          = (Inl (Exc PipelineConfigurationError
                    (''Missing key(s): ''
                     @ str_join '', ''
                         (filter (\<lambda>k. YStr k \<notin> fst ` set kvs) [''name'', ''steps'']))),
             (w2, t @ [ImportPythonFile (YStr python_file), ReadYaml config_path]))"
    by (auto simp add: run_pipeline_def key_check_def missing_keys_def missing_keys_message_def
        yaml_keys_def key_defs bnd_def call_def lift_def split: if_splits)
next
  assume h: "import_python_file env (YStr python_file) w = (Inr module, w1)
      \<and> read_yaml env config_path w1 = (Inr (YDict kvs), w2)
      \<and> map_of kvs (YStr ''name'') = Some (YStr pipeline_name)
      \<and> map_of (module_attrs module) pipeline_name = Some pipeline_class
      \<and> map_of kvs (YStr ''steps'') = Some (YDict (pre @ (step_name, YDict skvs) # post))
      \<and> resolve_steps env module pre []
           (w2, t @ [ImportPythonFile (YStr python_file), ReadYaml config_path])
         = (Inr steps', st')
      \<and> YStr ''source'' \<notin> fst ` set skvs"
  then have "resolve_steps env module (pre @ (step_name, YDict skvs) # post) []
               (w2, t @ [ImportPythonFile (YStr python_file), ReadYaml config_path])
             = (Inl (Exc PipelineConfigurationError ''Missing key(s): source''), st')"
    by (simp add: resolve_steps_append resolve_step_without_source bnd_def)
  with h show "run_pipeline env python_file config_path (w, t)
          = (Inl (Exc PipelineConfigurationError ''Missing key(s): source''), st')"
    using run_pipeline_loop
      [where env = env and python_file = python_file and w = w and module = module
         and ?w1.0 = w1 and config_path = config_path and kvs = kvs and ?w2.0 = w2
         and pipeline_name = pipeline_name and pipeline_class = pipeline_class
         and items = "pre @ (step_name, YDict skvs) # post" and t = t
         and e = "Exc PipelineConfigurationError ''Missing key(s): source''" and st' = st']
    by simp
next
  assume h: "import_python_file env (YStr python_file) w = (Inr module, w1)
      \<and> read_yaml env config_path w1 = (Inr (YDict kvs), w2)
      \<and> map_of kvs (YStr ''name'') = Some (YStr pipeline_name)
      \<and> map_of (module_attrs module) pipeline_name = Some pipeline_class
      \<and> map_of kvs (YStr ''steps'') = Some (YDict (pre @ (step_name, YDict skvs) # post))
      \<and> resolve_steps env module pre []
           (w2, t @ [ImportPythonFile (YStr python_file), ReadYaml config_path])
         = (Inl e, st')"
  then have "resolve_steps env module (pre @ (step_name, YDict skvs) # post) []
               (w2, t @ [ImportPythonFile (YStr python_file), ReadYaml config_path])
             = (Inl e, st')"
    by (simp add: resolve_steps_append)
  with h show "run_pipeline env python_file config_path (w, t) = (Inl e, st')"
    using run_pipeline_loop
      [where env = env and python_file = python_file and w = w and module = module
         and ?w1.0 = w1 and config_path = config_path and kvs = kvs and ?w2.0 = w2
         and pipeline_name = pipeline_name and pipeline_class = pipeline_class
         and items = "pre @ (step_name, YDict skvs) # post" and t = t
         and e = e and st' = st']
    by simp
next
  assume "import_python_file env (YStr python_file) w = (Inr module, w1)
      \<and> read_yaml env config_path w1 = (Inr (YDict kvs), w2)
      \<and> map_of kvs (YStr ''name'') = Some (YStr pipeline_name)
      \<and> YStr ''steps'' \<in> fst ` set kvs
      \<and> map_of (module_attrs module) pipeline_name = None"
  then show "run_pipeline env python_file config_path (w, t)
          = (Inl (Exc PipelineConfigurationError
                    (''Unable to load '' @ [CHR 0x27] @ pipeline_name @ [CHR 0x27]
                     @ '' from file '' @ [CHR 0x27] @ module_file module @ [CHR 0x27])),
             (w2, t @ [ImportPythonFile (YStr python_file), ReadYaml config_path]))"
  proof -
    assume h: "import_python_file env (YStr python_file) w = (Inr module, w1)
      \<and> read_yaml env config_path w1 = (Inr (YDict kvs), w2)
      \<and> map_of kvs (YStr ''name'') = Some (YStr pipeline_name)
      \<and> YStr ''steps'' \<in> fst ` set kvs
      \<and> map_of (module_attrs module) pipeline_name = None"
    then have "YStr ''name'' \<in> fst ` set kvs" by (auto intro: key_present)
    with h have "key_check pipeline_required_keys (YDict kvs) = Inr ()"
      by (intro top_level_keys_present) simp_all
    with h show ?thesis
      by (simp add: run_pipeline_def subscript_def get_module_attribute_def
          PipelineConfigurationKeys_NAME_def PipelineConfigurationKeys_STEPS_def
          bnd_def call_def lift_def)
  qed
qed

theorem key_checks_witness:
  "run_pipeline (ex_python ex_document_without_steps) ''run.py'' ''config.yaml'' ((), [])
     = (Inl (Exc PipelineConfigurationError ''Missing key(s): steps''),
        ((), [ImportPythonFile (YStr ''run.py''), ReadYaml ''config.yaml'']))
   \<and> run_pipeline (ex_python ex_document_second_step_incomplete) ''run.py'' ''config.yaml''
       ((), [])
     = (Inl (Exc PipelineConfigurationError ''Missing key(s): source''),
        ((), [ImportPythonFile (YStr ''run.py''), ReadYaml ''config.yaml'',
              Instantiate ''Step1'']))
   \<and> run_pipeline (ex_python ex_document_first_step_bare) ''run.py'' ''config.yaml'' ((), [])
     = (Inl (Exc PipelineConfigurationError
               (str_entry_message (ex_python ex_document_first_step_bare) ''Step1'')),
        ((), [ImportPythonFile (YStr ''run.py''), ReadYaml ''config.yaml'']))
   \<and> run_pipeline (ex_python ex_document_unknown_pipeline) ''run.py'' ''config.yaml'' ((), [])
     = (Inl (Exc PipelineConfigurationError
               (''Unable to load '' @ [CHR 0x27] @ ''Nope'' @ [CHR 0x27]
                @ '' from file '' @ [CHR 0x27] @ ''run.py'' @ [CHR 0x27])),
        ((), [ImportPythonFile (YStr ''run.py''), ReadYaml ''config.yaml'']))"
proof -
  have a: "run_pipeline (ex_python ex_document_without_steps) ''run.py'' ''config.yaml'' ((), [])
     = (Inl (Exc PipelineConfigurationError ''Missing key(s): steps''),
        ((), [ImportPythonFile (YStr ''run.py''), ReadYaml ''config.yaml'']))"
    using key_checks
      [where env = "ex_python ex_document_without_steps" and python_file = "''run.py''"
         and w = "()" and module = ex_module and ?w1.0 = "()"
         and config_path = "''config.yaml''" and kvs = "[(YStr ''name'', YStr ''P'')]"
         and ?w2.0 = "()" and t = "[]"]
    by (simp add: ex_python_def ex_document_without_steps_def)
  have b: "run_pipeline (ex_python ex_document_second_step_incomplete) ''run.py''
             ''config.yaml'' ((), [])
     = (Inl (Exc PipelineConfigurationError ''Missing key(s): source''),
        ((), [ImportPythonFile (YStr ''run.py''), ReadYaml ''config.yaml'',
              Instantiate ''Step1'']))"
    using key_checks
      [where env = "ex_python ex_document_second_step_incomplete"
         and python_file = "''run.py''" and w = "()" and module = ex_module and ?w1.0 = "()"
         and config_path = "''config.yaml''"
         and kvs = "[(YStr ''name'', YStr ''P''),
                     (YStr ''steps'',
                      YDict [(YStr ''s1'', YDict [(YStr ''source'', ex_source ''Step1'')]),
                             (YStr ''s2'', YDict [])])]"
         and ?w2.0 = "()" and t = "[]" and pipeline_name = "''P''" and pipeline_class = "''P''"
         and pre = "[(YStr ''s1'', YDict [(YStr ''source'', ex_source ''Step1'')])]"
         and step_name = "YStr ''s2''" and skvs = "[]" and post = "[]"
         and steps' = "[(YStr ''s1'', ''Step1()'')]"
         and st' = "((), [ImportPythonFile (YStr ''run.py''), ReadYaml ''config.yaml'',
                          Instantiate ''Step1''])"]
      ex_first_step [of ex_document_second_step_incomplete
        "[ImportPythonFile (YStr ''run.py''), ReadYaml ''config.yaml'']"]
    by (simp add: ex_python_def ex_document_second_step_incomplete_def ex_module_def)
  have c: "run_pipeline (ex_python ex_document_first_step_bare) ''run.py'' ''config.yaml''
             ((), [])
     = (Inl (Exc PipelineConfigurationError
               (str_entry_message (ex_python ex_document_first_step_bare) ''Step1'')),
        ((), [ImportPythonFile (YStr ''run.py''), ReadYaml ''config.yaml'']))"
    using key_checks
      [where env = "ex_python ex_document_first_step_bare"
         and python_file = "''run.py''" and w = "()" and module = ex_module and ?w1.0 = "()"
         and config_path = "''config.yaml''"
         and kvs = "[(YStr ''name'', YStr ''P''),
                     (YStr ''steps'',
                      YDict [(YStr ''s1'', YDict [(YStr ''source'', YStr ''Step1'')]),
                             (YStr ''s2'', YDict [])])]"
         and ?w2.0 = "()" and t = "[]" and pipeline_name = "''P''" and pipeline_class = "''P''"
         and pre = "[(YStr ''s1'', YDict [(YStr ''source'', YStr ''Step1'')])]"
         and step_name = "YStr ''s2''" and skvs = "[]" and post = "[]"
         and e = "Exc PipelineConfigurationError
                    (str_entry_message (ex_python ex_document_first_step_bare) ''Step1'')"
         and st' = "((), [ImportPythonFile (YStr ''run.py''), ReadYaml ''config.yaml''])"]
      ex_first_step_bare [of ex_document_first_step_bare
        "[ImportPythonFile (YStr ''run.py''), ReadYaml ''config.yaml'']"]
    by (simp add: ex_python_def ex_document_first_step_bare_def ex_module_def)
  have d: "run_pipeline (ex_python ex_document_unknown_pipeline) ''run.py'' ''config.yaml''
             ((), [])
     = (Inl (Exc PipelineConfigurationError
               (''Unable to load '' @ [CHR 0x27] @ ''Nope'' @ [CHR 0x27]
                @ '' from file '' @ [CHR 0x27] @ ''run.py'' @ [CHR 0x27])),
        ((), [ImportPythonFile (YStr ''run.py''), ReadYaml ''config.yaml'']))"
    using key_checks
      [where env = "ex_python ex_document_unknown_pipeline"
         and python_file = "''run.py''" and w = "()" and module = ex_module and ?w1.0 = "()"
         and config_path = "''config.yaml''"
         and kvs = "[(YStr ''name'', YStr ''Nope''),
                     (YStr ''steps'', YDict [(YStr ''s1'', YDict [])])]"
         and ?w2.0 = "()" and t = "[]" and pipeline_name = "''Nope''"]
    by (simp add: ex_python_def ex_document_unknown_pipeline_def ex_module_def)
  from a b c d show ?thesis by simp
qed

subsection \<open>Materializers given as a single source reference\<close>

text \<open>
  C7 fails on the code. A materializers field that is a bare string goes to
  \<open>_get_module\<close>, which rejects every string; one that is a structured source is a
  dictionary, so it is read as a mapping from output names to sources, and its \<open>name\<close>
  entry, a string, is rejected the same way. So no single source reference is ever
  attached, although the reference \<open>{name: M}\<close> itself resolves to \<open>M\<close>.
\<close>

theorem single_materializer_rejected:
  "resolve_materializers env module (YStr s) st
     = (Inl (Exc PipelineConfigurationError (str_entry_message env s)), st)
   \<and> resolve_materializers env module (YDict ((k, YStr s) # rest)) st
     = (Inl (Exc PipelineConfigurationError (str_entry_message env s)), st)
   \<and> get_module (ex_python YNone) ex_module (ex_source ''M'') ((), []) = (Inr ''M'', ((), []))
   \<and> run_pipeline (ex_python (ex_document_single_materializer (ex_source ''M'')))
        ''run.py'' ''config.yaml'' ((), [])
     = (Inl (Exc PipelineConfigurationError
               (str_entry_message (ex_python (ex_document_single_materializer (ex_source ''M'')))
                  ''M'')),
        ((), [ImportPythonFile (YStr ''run.py''), ReadYaml ''config.yaml'',
              Instantiate ''Step1'']))
   \<and> run_pipeline (ex_python (ex_document_single_materializer (YStr ''M'')))
        ''run.py'' ''config.yaml'' ((), [])
     = (Inl (Exc PipelineConfigurationError
               (str_entry_message (ex_python (ex_document_single_materializer (YStr ''M'')))
                  ''M'')),
        ((), [ImportPythonFile (YStr ''run.py''), ReadYaml ''config.yaml'',
              Instantiate ''Step1'']))"
proof (intro conjI)
  show "resolve_materializers env module (YStr s) st
     = (Inl (Exc PipelineConfigurationError (str_entry_message env s)), st)"
    by (simp add: resolve_materializers_def get_module_def bnd_def raise_def)
  show "resolve_materializers env module (YDict ((k, YStr s) # rest)) st
     = (Inl (Exc PipelineConfigurationError (str_entry_message env s)), st)"
    by (simp add: resolve_materializers_def get_module_def bnd_def raise_def)
  show "get_module (ex_python YNone) ex_module (ex_source ''M'') ((), []) = (Inr ''M'', ((), []))"
    by (simp add: resolver_defs key_defs prog_defs ex_python_def ex_module_def ex_source_def)
  show "run_pipeline (ex_python (ex_document_single_materializer (ex_source ''M'')))
        ''run.py'' ''config.yaml'' ((), [])
     = (Inl (Exc PipelineConfigurationError
               (str_entry_message (ex_python (ex_document_single_materializer (ex_source ''M'')))
                  ''M'')),
        ((), [ImportPythonFile (YStr ''run.py''), ReadYaml ''config.yaml'',
              Instantiate ''Step1'']))"
    by (simp add: resolver_defs key_defs prog_defs ex_python_def ex_module_def ex_source_def
        ex_document_single_materializer_def str_entry_message_def correct_input_def)
  show "run_pipeline (ex_python (ex_document_single_materializer (YStr ''M'')))
        ''run.py'' ''config.yaml'' ((), [])
     = (Inl (Exc PipelineConfigurationError
               (str_entry_message (ex_python (ex_document_single_materializer (YStr ''M'')))
                  ''M'')),
        ((), [ImportPythonFile (YStr ''run.py''), ReadYaml ''config.yaml'',
              Instantiate ''Step1'']))"
    by (simp add: resolver_defs key_defs prog_defs ex_python_def ex_module_def ex_source_def
        ex_document_single_materializer_def str_entry_message_def correct_input_def)
qed

end
